theory Spec2Isabelle
  imports Complex_Main "HOL-Library.AList" "HOL-Library.Multiset"
begin

section \<open>Shared data: chunks, errors, readings of the clock\<close>

text \<open>
  Times are milliseconds since the epoch, as \<^verbatim>\<open>Date.now()\<close> and
  \<^verbatim>\<open>Date.getTime()\<close> return them. Every reading of the clock that a function makes
  is an argument of its model, in the order the source makes the readings.
\<close>

text \<open>\<^verbatim>\<open>interface Chunk\<close> of \<^verbatim>\<open>src/events/types.ts\<close>.\<close>

record Chunk =
  chunk_id :: string
  content :: string
  index :: int
  timestamp :: int
  metadata :: "(string \<times> string) list"
  isComplete :: bool
  sequenceId :: "string option"

text \<open>
  The errors the modelled code raises. All but the last two are
  \<^verbatim>\<open>new Error(message)\<close> in the source, told apart by their message:
  \<^item> \<open>AlreadyExists id\<close>: \<^verbatim>\<open>Buffer with id "..." already exists\<close>;
  \<^item> \<open>LimitReached id n\<close>: \<^verbatim>\<open>Cannot create buffer "..." - maximum buffer limit (n) reached\<close>;
  \<^item> \<open>TimedOut t\<close>: \<^verbatim>\<open>Hook execution timed out after {t}ms\<close>;
  \<^item> \<open>Thrown msg\<close>: whatever a callback supplied by the integrator throws or rejects with;
  \<^item> \<open>NotAFunction e\<close>: the \<^verbatim>\<open>TypeError\<close> of calling a method the object does not have;
  \<^item> \<open>NotDefined x\<close>: the \<^verbatim>\<open>ReferenceError\<close> of reading an identifier that is
    not in scope.
\<close>

datatype js_error =
    AlreadyExists string
  | LimitReached string int
  | TimedOut nat
  | Thrown string
  | NotAFunction string
  | NotDefined string

section \<open>StreamBuffer (\<^verbatim>\<open>src/streaming/StreamBuffer.ts\<close>)\<close>

datatype strategy = Size | Time | Hybrid

datatype flush_reason = BySize | ByTime | ByHybrid | Manual

text \<open>\<^verbatim>\<open>interface StreamBufferConfig\<close>.\<close>

record StreamBufferConfig =
  maxSize :: int
  maxTime :: int
  strategy :: strategy
  enableMetrics :: bool

text \<open>
  \<^verbatim>\<open>BufferFlushEventData\<close> and \<^verbatim>\<open>BufferFlushHookContext\<close> as \<^verbatim>\<open>flush\<close> builds them.
  \<open>ctx_hookStamp\<close> is the clock reading inside the \<^verbatim>\<open>hookId\<close> string
  \<^verbatim>\<open>buffer-flush-{Date.now()}\<close>.
\<close>

record BufferFlushEventData =
  data_bufferId :: string
  data_chunks :: "Chunk list"
  data_flushReason :: flush_reason
  data_totalSize :: nat
  data_processingTime :: int
  data_bufferAge :: int
  data_averageChunkSize :: real

record BufferFlushHookContext =
  ctx_bufferId :: string
  ctx_hookStamp :: int
  ctx_executionOrder :: nat
  ctx_totalHooks :: nat
  ctx_flushReason :: flush_reason
  ctx_chunkCount :: nat
  ctx_totalSize :: nat

type_synonym flush_handler =
  "BufferFlushEventData \<Rightarrow> BufferFlushHookContext \<Rightarrow> js_error + Chunk list"

text \<open>
  The fields of \<^verbatim>\<open>class StreamBuffer\<close>. \<open>flushTimeout\<close> is the time at which the pending
  \<^verbatim>\<open>setTimeout\<close> callback is due, if one is pending. \<open>immediates\<close> is the queue of
  callbacks that \<^verbatim>\<open>addChunk\<close> and \<^verbatim>\<open>addChunks\<close> have handed to \<^verbatim>\<open>setImmediate\<close> and
  that the event loop has not run yet: each is \<^verbatim>\<open>() => this.flush(reason)\<close>, kept as its
  reason. The private \<^verbatim>\<open>bufferEvent\<close> is a fresh \<^verbatim>\<open>BufferFlushEvent\<close> that nothing outside
  the buffer can reach, so it never holds a \<^verbatim>\<open>buffer:flush\<close> hook; it is modelled by what
  \<^verbatim>\<open>processBufferFlush\<close> then returns.
\<close>

record StreamBuffer =
  bufferId :: string
  config :: StreamBufferConfig
  chunks :: "Chunk list"
  createdAt :: int
  lastChunkTime :: int
  flushTimeout :: "int option"
  isActive :: bool
  onFlush :: "flush_handler option"
  totalChunksAdded :: nat
  totalFlushes :: nat
  totalProcessingTime :: int
  immediates :: "flush_reason list"

text \<open>\<^verbatim>\<open>startFlushTimer\<close>: replaces the pending timer by one due \<open>maxTime\<close> from now.\<close>

definition startFlushTimer :: "int \<Rightarrow> StreamBuffer \<Rightarrow> StreamBuffer" where
  "startFlushTimer now b = b\<lparr>flushTimeout := Some (now + maxTime (config b))\<rparr>"

text \<open>
  The constructor. \<open>t_created\<close> and \<open>t_last\<close> are the two \<^verbatim>\<open>new Date()\<close>, \<open>t_timer\<close> the
  time at which \<^verbatim>\<open>setTimeout\<close> is called.
\<close>

definition newStreamBuffer ::
  "int \<Rightarrow> int \<Rightarrow> int \<Rightarrow> string \<Rightarrow> StreamBufferConfig \<Rightarrow> flush_handler option \<Rightarrow> StreamBuffer" where
  "newStreamBuffer t_created t_last t_timer bid cfg handler =
     (let b = \<lparr>bufferId = bid, config = cfg, chunks = [], createdAt = t_created,
                lastChunkTime = t_last, flushTimeout = None, isActive = True,
                onFlush = handler, totalChunksAdded = 0, totalFlushes = 0,
                totalProcessingTime = 0, immediates = []\<rparr>
      in if strategy cfg = Time \<or> strategy cfg = Hybrid then startFlushTimer t_timer b else b)"

text \<open>
  \<^verbatim>\<open>shouldFlush\<close>, at clock reading \<open>now\<close>. The result is the pair
  \<^verbatim>\<open>{shouldFlush, flushReason}\<close>. The hybrid clause compares with \<^verbatim>\<open>maxSize * 0.7\<close> and
  \<^verbatim>\<open>maxTime * 0.5\<close>; it is written here in exact arithmetic, multiplied out.
\<close>

definition shouldFlush :: "int \<Rightarrow> StreamBuffer \<Rightarrow> bool \<times> flush_reason option" where
  "shouldFlush now b =
     (let age = now - createdAt b;
          timeSinceLastChunk = now - lastChunkTime b;
          n = int (length (chunks b));
          cfg = config b
      in if n \<ge> maxSize cfg then (True, Some BySize)
         else if strategy cfg = Time \<and> age \<ge> maxTime cfg then (True, Some ByTime)
         else if strategy cfg = Hybrid then
           (if age \<ge> maxTime cfg then (True, Some ByHybrid)
            else if 10 * n \<ge> 7 * maxSize cfg \<and> 2 * timeSinceLastChunk \<ge> maxTime cfg
              then (True, Some ByHybrid)
            else (False, None))
         else (False, None))"

text \<open>
  The clock readings of \<^verbatim>\<open>addChunk\<close> and \<^verbatim>\<open>addChunks\<close>, in order: \<^verbatim>\<open>startTime\<close>, the
  \<^verbatim>\<open>new Date()\<close> stored in \<^verbatim>\<open>lastChunkTime\<close>, \<^verbatim>\<open>now\<close> of \<^verbatim>\<open>shouldFlush\<close>, and the reading
  that ends \<^verbatim>\<open>processingTime\<close>.
\<close>

record add_clock =
  t_start :: int
  t_stamp :: int
  t_check :: int
  t_end :: int

text \<open>The object that \<^verbatim>\<open>addChunk\<close> and \<^verbatim>\<open>addChunks\<close> return.\<close>

record add_result =
  res_shouldFlush :: bool
  res_flushReason :: "flush_reason option"
  res_bufferedChunks :: nat

text \<open>
  What both functions do after the chunks are appended: stamp \<^verbatim>\<open>lastChunkTime\<close>, evaluate
  \<^verbatim>\<open>shouldFlush\<close>, hand \<^verbatim>\<open>() => this.flush(reason)\<close> to \<^verbatim>\<open>setImmediate\<close> when it holds,
  account the processing time, and build the result.
\<close>

definition afterAppend :: "add_clock \<Rightarrow> StreamBuffer \<Rightarrow> add_result \<times> StreamBuffer" where
  "afterAppend clk b1 =
     (let b2 = b1\<lparr>lastChunkTime := t_stamp clk\<rparr>;
          flushCheck = shouldFlush (t_check clk) b2;
          b3 = (case flushCheck of
                  (True, Some r) \<Rightarrow> b2\<lparr>immediates := immediates b2 @ [r]\<rparr>
                | _ \<Rightarrow> b2);
          b4 = b3\<lparr>totalProcessingTime := totalProcessingTime b3 + (t_end clk - t_start clk)\<rparr>
      in (\<lparr>res_shouldFlush = fst flushCheck, res_flushReason = snd flushCheck,
           res_bufferedChunks = length (chunks b4)\<rparr>, b4))"

definition addChunk :: "add_clock \<Rightarrow> Chunk \<Rightarrow> StreamBuffer \<Rightarrow> add_result \<times> StreamBuffer" where
  "addChunk clk chunk b =
     (if \<not> isActive b
      then (\<lparr>res_shouldFlush = False, res_flushReason = None, res_bufferedChunks = 0\<rparr>, b)
      else afterAppend clk
             (b\<lparr>chunks := chunks b @ [chunk], totalChunksAdded := totalChunksAdded b + 1\<rparr>))"

definition addChunks :: "add_clock \<Rightarrow> Chunk list \<Rightarrow> StreamBuffer \<Rightarrow> add_result \<times> StreamBuffer" where
  "addChunks clk cs b =
     (if \<not> isActive b
      then (\<lparr>res_shouldFlush = False, res_flushReason = None, res_bufferedChunks = 0\<rparr>, b)
      else afterAppend clk
             (b\<lparr>chunks := chunks b @ cs, totalChunksAdded := totalChunksAdded b + length cs\<rparr>))"

text \<open>
  \<^verbatim>\<open>processBufferFlush\<close> on the buffer's private \<^verbatim>\<open>BufferFlushEvent\<close>: the default rule
  validates, no \<^verbatim>\<open>buffer:flush\<close> hook is registered, so \<^verbatim>\<open>executeHooks\<close> returns the event
  data as it is and the chunks come back unchanged.
\<close>

definition processBufferFlush :: "Chunk list \<Rightarrow> js_error + Chunk list" where
  "processBufferFlush cs = Inr cs"

text \<open>
  The clock readings of \<^verbatim>\<open>flush\<close>: \<^verbatim>\<open>startTime\<close>, the reading in \<^verbatim>\<open>bufferAge\<close>, the
  reading in the context's \<^verbatim>\<open>hookId\<close>, and the reading after the awaited pipeline.
\<close>

record flush_clock =
  f_start :: int
  f_age :: int
  f_hook :: int
  f_end :: int

text \<open>
  \<^verbatim>\<open>flush\<close> up to its \<^verbatim>\<open>await\<close>: the guard, the copy of the chunk list, the event data and
  the context. \<open>None\<close> is the early \<^verbatim>\<open>return []\<close>.
\<close>

definition flushData ::
  "flush_clock \<Rightarrow> flush_reason \<Rightarrow> StreamBuffer \<Rightarrow> (BufferFlushEventData \<times> BufferFlushHookContext) option" where
  "flushData clk reason b =
     (if \<not> isActive b \<or> length (chunks b) = 0 then None
      else let chunksToFlush = chunks b;
               totalSize = sum_list (map (\<lambda>c. length (content c)) chunksToFlush)
           in Some (\<lparr>data_bufferId = bufferId b, data_chunks = chunksToFlush,
                      data_flushReason = reason, data_totalSize = totalSize,
                      data_processingTime = 0, data_bufferAge = f_age clk - createdAt b,
                      data_averageChunkSize = real totalSize / real (length chunksToFlush)\<rparr>,
                     \<lparr>ctx_bufferId = bufferId b, ctx_hookStamp = f_hook clk,
                      ctx_executionOrder = 0, ctx_totalHooks = 0, ctx_flushReason = reason,
                      ctx_chunkCount = length chunksToFlush, ctx_totalSize = totalSize\<rparr>))"

text \<open>The awaited pipeline: the custom handler if there is one, the default otherwise.\<close>

definition flushPipeline ::
  "StreamBuffer \<Rightarrow> BufferFlushEventData \<Rightarrow> BufferFlushHookContext \<Rightarrow> js_error + Chunk list" where
  "flushPipeline b d c =
     (case onFlush b of
        Some handler \<Rightarrow> handler d c
      | None \<Rightarrow> processBufferFlush (data_chunks d))"

text \<open>
  \<^verbatim>\<open>flush\<close> after its \<^verbatim>\<open>await\<close>: the \<^verbatim>\<open>try\<close> block's tail on success, the \<^verbatim>\<open>catch\<close>
  block on failure.
\<close>

definition flushSettle ::
  "flush_clock \<Rightarrow> js_error + Chunk list \<Rightarrow> StreamBuffer \<Rightarrow> (js_error + Chunk list) \<times> StreamBuffer" where
  "flushSettle clk outcome b =
     (case outcome of
        Inr processedChunks \<Rightarrow>
          (Inr processedChunks,
           b\<lparr>chunks := [], totalFlushes := totalFlushes b + 1,
             totalProcessingTime := totalProcessingTime b + (f_end clk - f_start clk)\<rparr>)
      | Inl err \<Rightarrow> (Inl err, b\<lparr>chunks := []\<rparr>))"

text \<open>
  A call of \<^verbatim>\<open>flush\<close> that runs to completion with nothing else touching the buffer while
  the pipeline is awaited. \<open>Inl\<close> is the rejection of the returned promise.
\<close>

definition flush ::
  "flush_clock \<Rightarrow> flush_reason \<Rightarrow> StreamBuffer \<Rightarrow> (js_error + Chunk list) \<times> StreamBuffer" where
  "flush clk reason b =
     (case flushData clk reason b of
        None \<Rightarrow> (Inr [], b)
      | Some (d, c) \<Rightarrow> flushSettle clk (flushPipeline b d c) b)"

text \<open>
  The event loop runs the oldest callback queued by \<^verbatim>\<open>setImmediate\<close>: it calls
  \<^verbatim>\<open>this.flush(reason)\<close> and drops the promise. With an empty queue nothing happens.
\<close>

definition runImmediate :: "flush_clock \<Rightarrow> StreamBuffer \<Rightarrow> StreamBuffer" where
  "runImmediate clk b =
     (case immediates b of
        [] \<Rightarrow> b
      | r # rest \<Rightarrow> snd (flush clk r (b\<lparr>immediates := rest\<rparr>)))"

text \<open>The callback of the flush timer, when it fires.\<close>

definition flushTimerFires :: "flush_clock \<Rightarrow> StreamBuffer \<Rightarrow> StreamBuffer" where
  "flushTimerFires clk b =
     (let b1 = b\<lparr>flushTimeout := None\<rparr>
      in if isActive b1 \<and> length (chunks b1) > 0 then snd (flush clk ByTime b1) else b1)"

text \<open>\<^verbatim>\<open>clear\<close>, \<^verbatim>\<open>pause\<close>, \<^verbatim>\<open>resume\<close>, \<^verbatim>\<open>destroy\<close>.\<close>

definition clear :: "StreamBuffer \<Rightarrow> Chunk list \<times> StreamBuffer" where
  "clear b = (chunks b, b\<lparr>chunks := []\<rparr>)"

definition pause :: "StreamBuffer \<Rightarrow> StreamBuffer" where
  "pause b = b\<lparr>isActive := False, flushTimeout := None\<rparr>"

definition resume :: "int \<Rightarrow> StreamBuffer \<Rightarrow> StreamBuffer" where
  "resume now b =
     (if \<not> isActive b then
        (let b1 = b\<lparr>isActive := True\<rparr>
         in if strategy (config b1) = Time \<or> strategy (config b1) = Hybrid
            then startFlushTimer now b1 else b1)
      else b)"

definition destroy :: "StreamBuffer \<Rightarrow> Chunk list \<times> StreamBuffer" where
  "destroy b = clear (pause b)"

section \<open>BufferManager (\<^verbatim>\<open>src/streaming/BufferManager.ts\<close>)\<close>

record BufferInfo =
  info_id :: string
  buffer :: StreamBuffer
  info_createdAt :: int
  lastActivity :: int
  info_sequenceId :: "string option"
  info_metadata :: "(string \<times> string) list"

text \<open>
  \<^verbatim>\<open>BufferManagerConfig\<close> after the constructor has merged the defaults in, so every field
  has a value.
\<close>

record BufferManagerConfig =
  defaultBufferConfig :: StreamBufferConfig
  maxBuffers :: int
  autoCleanup :: bool
  cleanupAge :: int
  mgr_enableMetrics :: bool

text \<open>
  The fields of \<^verbatim>\<open>class BufferManager\<close>. \<open>buffers\<close> is the \<^verbatim>\<open>Map\<close>, as the list of its
  entries in insertion order; \<open>cleanupInterval\<close> says whether the interval timer is set.
\<close>

record BufferManager =
  buffers :: "(string \<times> BufferInfo) list"
  mgr_config :: BufferManagerConfig
  totalChunksProcessed :: nat
  mgr_totalFlushes :: nat
  cleanupInterval :: bool

text \<open>\<^verbatim>\<open>BufferFlushEvent.createDefaultBufferConfig()\<close> and the constructor's defaults.\<close>

definition createDefaultBufferConfig :: StreamBufferConfig where
  "createDefaultBufferConfig =
     \<lparr>maxSize = 10, maxTime = 100, strategy = Hybrid, enableMetrics = True\<rparr>"

definition defaultManagerConfig :: BufferManagerConfig where
  "defaultManagerConfig =
     \<lparr>defaultBufferConfig = createDefaultBufferConfig, maxBuffers = 100, autoCleanup = True,
      cleanupAge = 5 * 60 * 1000, mgr_enableMetrics = True\<rparr>"

definition newBufferManager :: "BufferManagerConfig \<Rightarrow> BufferManager" where
  "newBufferManager cfg =
     \<lparr>buffers = [], mgr_config = cfg, totalChunksProcessed = 0, mgr_totalFlushes = 0,
      cleanupInterval = autoCleanup cfg\<rparr>"

text \<open>
  The test of \<^verbatim>\<open>cleanup\<close> on one entry:
  \<^verbatim>\<open>age > cleanupAge || inactiveTime > cleanupAge / 2\<close>, the division multiplied out.
\<close>

definition tooOldOrInactive :: "int \<Rightarrow> int \<Rightarrow> BufferInfo \<Rightarrow> bool" where
  "tooOldOrInactive now age_limit info =
     (let age = now - info_createdAt info;
          inactiveTime = now - lastActivity info
      in age > age_limit \<or> 2 * inactiveTime > age_limit)"

text \<open>
  The loop of \<^verbatim>\<open>cleanup\<close> over the entries: the ids removed and the entries kept. An
  entry that is removed has its buffer destroyed and is dropped with it.
\<close>

fun cleanupLoop ::
  "int \<Rightarrow> int \<Rightarrow> (string \<times> BufferInfo) list \<Rightarrow> string list \<times> (string \<times> BufferInfo) list" where
  "cleanupLoop now age_limit [] = ([], [])"
| "cleanupLoop now age_limit ((bid, info) # rest) =
     (let (removed, kept) = cleanupLoop now age_limit rest
      in if tooOldOrInactive now age_limit info then (bid # removed, kept)
         else (removed, (bid, info) # kept))"

text \<open>\<^verbatim>\<open>cleanup\<close>: returns \<^verbatim>\<open>{removedBuffers, remainingBuffers}\<close>.\<close>

definition cleanup :: "int \<Rightarrow> BufferManager \<Rightarrow> (string list \<times> nat) \<times> BufferManager" where
  "cleanup now m =
     (let (removed, kept) = cleanupLoop now (cleanupAge (mgr_config m)) (buffers m)
      in ((removed, length kept), m\<lparr>buffers := kept\<rparr>))"

text \<open>
  \<^verbatim>\<open>setupBufferEventListeners\<close> calls \<^verbatim>\<open>buffer.on('flushed', ...)\<close>. \<^verbatim>\<open>class StreamBuffer\<close>
  extends nothing and declares no method \<^verbatim>\<open>on\<close>, so the call raises.
\<close>

definition setupBufferEventListeners :: "string \<Rightarrow> StreamBuffer \<Rightarrow> js_error + unit" where
  "setupBufferEventListeners bid b = Inl (NotAFunction ''buffer.on'')"

text \<open>The options of \<^verbatim>\<open>createBuffer\<close> and its clock readings, in order.\<close>

record create_options =
  opt_config :: "StreamBufferConfig option"
  opt_sequenceId :: "string option"
  opt_metadata :: "(string \<times> string) list option"
  opt_onFlush :: "flush_handler option"

record create_clock =
  c_cleanup :: int
  c_created :: int
  c_last :: int
  c_timer :: int
  c_info :: int

text \<open>
  \<^verbatim>\<open>createBuffer\<close>. The result is the buffer returned or the error thrown, with the
  manager as the call leaves it.
\<close>

definition createBuffer ::
  "create_clock \<Rightarrow> string \<Rightarrow> create_options \<Rightarrow> BufferManager \<Rightarrow> (js_error + StreamBuffer) \<times> BufferManager" where
  "createBuffer clk bid opts m =
     (if map_of (buffers m) bid \<noteq> None then (Inl (AlreadyExists bid), m)
      else
        let limit = maxBuffers (mgr_config m);
            m1 = (if int (length (buffers m)) \<ge> limit then snd (cleanup (c_cleanup clk) m) else m)
        in if int (length (buffers m)) \<ge> limit \<and> int (length (buffers m1)) \<ge> limit
           then (Inl (LimitReached bid limit), m1)
           else
             let bufferConfig = (case opt_config opts of Some c \<Rightarrow> c
                                 | None \<Rightarrow> defaultBufferConfig (mgr_config m1));
                 b = newStreamBuffer (c_created clk) (c_last clk) (c_timer clk) bid bufferConfig
                       (opt_onFlush opts);
                 info = \<lparr>info_id = bid, buffer = b, info_createdAt = c_info clk,
                         lastActivity = c_info clk, info_sequenceId = opt_sequenceId opts,
                         info_metadata = (case opt_metadata opts of Some md \<Rightarrow> md | None \<Rightarrow> [])\<rparr>;
                 m2 = m1\<lparr>buffers := buffers m1 @ [(bid, info)]\<rparr>
             in (case setupBufferEventListeners bid b of
                   Inl err \<Rightarrow> (Inl err, m2)
                 | Inr _ \<Rightarrow> (Inr b, m2)))"

text \<open>\<^verbatim>\<open>getBuffer\<close>: looks the buffer up and stamps \<^verbatim>\<open>lastActivity\<close>.\<close>

definition getBuffer :: "int \<Rightarrow> string \<Rightarrow> BufferManager \<Rightarrow> StreamBuffer option \<times> BufferManager" where
  "getBuffer now bid m =
     (case map_of (buffers m) bid of
        Some info \<Rightarrow>
          (Some (buffer info),
           m\<lparr>buffers := AList.update bid (info\<lparr>lastActivity := now\<rparr>) (buffers m)\<rparr>)
      | None \<Rightarrow> (None, m))"

section \<open>Hooks: callbacks, completions, registration arrays\<close>

text \<open>
  A hook is a function of the integrator. The registries below hold references to
  functions, and a callback can reach the registry that holds it (through the object it
  closes over), so a reference is a number and what the function does is looked up in an
  environment: given the payload, the context and the registry, the function's run and
  the registry as the function's own calls leave it. For the manager, whose dispatcher
  reports on the payload, the payload and the context are objects in a store, which the
  function can also write to.

  A run ends by returning a value, returning \<^verbatim>\<open>undefined\<close> (\<open>Returned None\<close>), or throwing
  (a rejected promise is a throw for the awaiting dispatcher).
\<close>

datatype 'p completion = Returned "'p option" | Threw js_error

text \<open>
  The registries keep one array of registrations per event in a \<^verbatim>\<open>Map\<close>, and the
  dispatch loops hold on to the array object they fetched when they started. The arrays
  therefore live in a store, addressed by position, and the \<^verbatim>\<open>Map\<close> holds addresses. An
  address that was never allocated reads as the empty array.
\<close>

definition arrayAt :: "'a list list \<Rightarrow> nat \<Rightarrow> 'a list" where
  "arrayAt store a = (if a < length store then store ! a else [])"

text \<open>\<^verbatim>\<open>Array.prototype.findIndex\<close> with \<open>None\<close> for \<open>-1\<close>, and \<^verbatim>\<open>splice(index, 1)\<close>.\<close>

fun findIndex :: "('a \<Rightarrow> bool) \<Rightarrow> 'a list \<Rightarrow> nat option" where
  "findIndex P [] = None"
| "findIndex P (x # xs) =
     (if P x then Some 0 else (case findIndex P xs of None \<Rightarrow> None | Some i \<Rightarrow> Some (Suc i)))"

definition splice1 :: "nat \<Rightarrow> 'a list \<Rightarrow> 'a list" where
  "splice1 i xs = take i xs @ drop (Suc i) xs"

section \<open>HookableEventEmitter (\<^verbatim>\<open>src/core/EventEmitter.ts\<close>)\<close>

text \<open>
  The functions an emitter's registrations refer to:
  \<^item> a function of the integrator;
  \<^item> the \<^verbatim>\<open>wrappedHook\<close> closure that \<^verbatim>\<open>once\<close> creates, which knows its event and the
    function it wraps (the first argument tells two closures of the same function apart:
    it is the value of \<^verbatim>\<open>nextHookId\<close> when the closure was created);
  \<^item> the wrapper that the \<^verbatim>\<open>once\<close> of the Node \<^verbatim>\<open>EventEmitter\<close> puts around that closure
    (\<^verbatim>\<open>_onceWrap\<close>), named by the same three values;
  \<^item> the listener that \<^verbatim>\<open>setupErrorHandling\<close> installs, which only logs.
\<close>

datatype ehook =
    Callback nat
  | OnceWrapped nat string nat
  | NodeOnceWrapper nat string nat
  | ErrorLogger


text \<open>
  \<^verbatim>\<open>PriorityHookRegistration\<close> of the emitter. \<open>e_id\<close> is the number \<open>n\<close> of the id
  \<^verbatim>\<open>hook-{n}\<close>.
\<close>

record EmitterRegistration =
  e_event :: string
  e_hook :: ehook
  e_priority :: int
  e_id :: nat

text \<open>
  The fields of \<^verbatim>\<open>class HookableEventEmitter\<close>, and \<open>fired\<close>: the Node wrappers whose
  \<^verbatim>\<open>fired\<close> flag is set, by their first value. The listener table of the Node
  \<^verbatim>\<open>EventEmitter\<close> it extends is not part of the model: \<^verbatim>\<open>executeHooks\<close> never reads it.
\<close>

record HookableEventEmitter =
  e_arrays :: "EmitterRegistration list list"
  e_hookRegistrations :: "(string \<times> nat) list"
  nextHookId :: nat
  fired :: "nat list"

text \<open>
  The private \<^verbatim>\<open>registerHook\<close>: the registration gets \<^verbatim>\<open>priority || 100\<close>, which is 100
  when the priority is 0, and the id \<^verbatim>\<open>hook-{nextHookId++}\<close>; the event's array is created
  if the \<^verbatim>\<open>Map\<close> has none; the registration is pushed and the array sorted in place by
  priority (\<^verbatim>\<open>Array.prototype.sort\<close> is stable).
\<close>

definition emitter_registerHook ::
  "string \<Rightarrow> ehook \<Rightarrow> int \<Rightarrow> HookableEventEmitter \<Rightarrow> HookableEventEmitter" where
  "emitter_registerHook ev h prio e =
     (let registration = \<lparr>e_event = ev, e_hook = h,
                           e_priority = (if prio = 0 then 100 else prio), e_id = nextHookId e\<rparr>;
          e1 = e\<lparr>nextHookId := nextHookId e + 1\<rparr>;
          e2 = (if map_of (e_hookRegistrations e1) ev = None
                then e1\<lparr>e_arrays := e_arrays e1 @ [[]],
                        e_hookRegistrations := e_hookRegistrations e1 @ [(ev, length (e_arrays e1))]\<rparr>
                else e1)
      in case map_of (e_hookRegistrations e2) ev of
           None \<Rightarrow> e2
         | Some a \<Rightarrow>
             e2\<lparr>e_arrays := (e_arrays e2)
                   [a := sort_key e_priority (arrayAt (e_arrays e2) a @ [registration])]\<rparr>)"

text \<open>The private \<^verbatim>\<open>unregisterHook\<close>: removes the first registration of that function.\<close>

definition emitter_unregisterHook ::
  "string \<Rightarrow> ehook \<Rightarrow> HookableEventEmitter \<Rightarrow> HookableEventEmitter" where
  "emitter_unregisterHook ev h e =
     (case map_of (e_hookRegistrations e) ev of
        None \<Rightarrow> e
      | Some a \<Rightarrow>
          (case findIndex (\<lambda>reg. e_hook reg = h) (arrayAt (e_arrays e) a) of
             None \<Rightarrow> e
           | Some i \<Rightarrow> e\<lparr>e_arrays := (e_arrays e)[a := splice1 i (arrayAt (e_arrays e) a)]\<rparr>))"

text \<open>
  \<^verbatim>\<open>on\<close>, \<^verbatim>\<open>once\<close>, \<^verbatim>\<open>off\<close>, \<^verbatim>\<open>removeAllListeners\<close>. The priority argument is optional and
  defaults to 100.
\<close>

definition emitter_on :: "string \<Rightarrow> nat \<Rightarrow> int option \<Rightarrow> HookableEventEmitter \<Rightarrow> HookableEventEmitter" where
  "emitter_on ev f prio e =
     emitter_registerHook ev (Callback f) (case prio of None \<Rightarrow> 100 | Some p \<Rightarrow> p) e"

text \<open>
  \<^verbatim>\<open>once\<close> registers its \<^verbatim>\<open>wrappedHook\<close> closure and ends with
  \<^verbatim>\<open>super.once(event, wrappedHook)\<close>. The \<^verbatim>\<open>once\<close> of the Node \<^verbatim>\<open>EventEmitter\<close> is
  \<^verbatim>\<open>this.on(type, _onceWrap(this, type, listener))\<close>, and \<^verbatim>\<open>this.on\<close> is the overridden \<^verbatim>\<open>on\<close>
  above, called without a priority: so a second registration is made, of the Node wrapper
  around the closure, with priority 100 and the next id.
\<close>

definition emitter_once :: "string \<Rightarrow> nat \<Rightarrow> int option \<Rightarrow> HookableEventEmitter \<Rightarrow> HookableEventEmitter" where
  "emitter_once ev f prio e =
     (let serial = nextHookId e;
          e1 = emitter_registerHook ev (OnceWrapped serial ev f)
                 (case prio of None \<Rightarrow> 100 | Some p \<Rightarrow> p) e
      in emitter_registerHook ev (NodeOnceWrapper serial ev f) 100 e1)"

definition emitter_off :: "string \<Rightarrow> nat \<Rightarrow> HookableEventEmitter \<Rightarrow> HookableEventEmitter" where
  "emitter_off ev f e = emitter_unregisterHook ev (Callback f) e"

definition emitter_removeAllListeners :: "string \<Rightarrow> HookableEventEmitter \<Rightarrow> HookableEventEmitter" where
  "emitter_removeAllListeners ev e =
     e\<lparr>e_hookRegistrations := AList.delete ev (e_hookRegistrations e)\<rparr>"

text \<open>
  The constructor: \<^verbatim>\<open>nextHookId = 1\<close>, then \<^verbatim>\<open>setupErrorHandling\<close> registers the logging
  listener on \<^verbatim>\<open>error\<close> through the overridden \<^verbatim>\<open>on\<close>.
\<close>

definition newEmitter :: HookableEventEmitter where
  "newEmitter =
     emitter_registerHook ''error'' ErrorLogger 100
       \<lparr>e_arrays = [], e_hookRegistrations = [], nextHookId = 1, fired = []\<rparr>"

text \<open>What the functions of the integrator do, for an emitter.\<close>

type_synonym ('p, 'c) emitter_env =
  "nat \<Rightarrow> 'p \<Rightarrow> 'c \<Rightarrow> HookableEventEmitter \<Rightarrow> 'p completion \<times> HookableEventEmitter"

text \<open>
  Calling a registered function. The \<^verbatim>\<open>wrappedHook\<close> closure unregisters itself first and
  then calls the function it wraps. The Node wrapper does nothing and returns
  \<^verbatim>\<open>undefined\<close> once its \<^verbatim>\<open>fired\<close> flag is set; before that it removes itself from the
  listener table (\<^verbatim>\<open>removeListener\<close>, which is not overridden and leaves the registration
  arrays alone), sets the flag and calls the closure.
\<close>

definition emitter_call ::
  "('p, 'c) emitter_env \<Rightarrow> ehook \<Rightarrow> 'p \<Rightarrow> 'c \<Rightarrow> HookableEventEmitter
     \<Rightarrow> 'p completion \<times> HookableEventEmitter" where
  "emitter_call env h d c e =
     (case h of
        Callback f \<Rightarrow> env f d c e
      | OnceWrapped serial ev f \<Rightarrow> env f d c (emitter_unregisterHook ev (OnceWrapped serial ev f) e)
      | NodeOnceWrapper serial ev f \<Rightarrow>
          if serial \<in> set (fired e) then (Returned None, e)
          else env f d c (emitter_unregisterHook ev (OnceWrapped serial ev f)
                            (e\<lparr>fired := fired e @ [serial]\<rparr>))
      | ErrorLogger \<Rightarrow> (Returned None, e))"

text \<open>
  The \<^verbatim>\<open>for ... of\<close> loop of \<^verbatim>\<open>executeHooks\<close> over the array at address \<open>a\<close>, from position
  \<open>i\<close>. The array iterator reads the live array: at every step it compares its position
  with the current length and reads the current element. The loop needs one unit of
  fuel for each test of the position; \<open>None\<close> is a loop that has not finished when the
  fuel is used up.

  In the \<^verbatim>\<open>try\<close> block the awaited result replaces \<open>currentData\<close> unless it is
  \<^verbatim>\<open>undefined\<close>, and the id is logged as executed. The \<^verbatim>\<open>catch\<close> block begins with
  \<^verbatim>\<open>const hookDuration = Date.now() - hookStartTime\<close>, and \<^verbatim>\<open>hookStartTime\<close> is declared by
  \<^verbatim>\<open>const\<close> inside the \<^verbatim>\<open>try\<close> block, so it is not in scope there: reading it raises a
  \<^verbatim>\<open>ReferenceError\<close> inside the handler, which leaves the loop and rejects the promise
  \<^verbatim>\<open>executeHooks\<close> returned.

  The result is the rejection or the final data, the ids logged as executed, and the
  emitter.
\<close>

fun executeLoop ::
  "nat \<Rightarrow> ('p, 'c) emitter_env \<Rightarrow> 'c \<Rightarrow> nat \<Rightarrow> nat \<Rightarrow> 'p \<Rightarrow> nat list \<Rightarrow> HookableEventEmitter
     \<Rightarrow> ((js_error + 'p) \<times> nat list \<times> HookableEventEmitter) option" where
  "executeLoop 0 env c a i currentData executed e = None"
| "executeLoop (Suc fuel) env c a i currentData executed e =
     (let registrations = arrayAt (e_arrays e) a
      in if i < length registrations then
           (let registration = registrations ! i
            in case emitter_call env (e_hook registration) currentData c e of
                 (Returned r, e1) \<Rightarrow>
                   executeLoop fuel env c a (Suc i)
                     (case r of Some v \<Rightarrow> v | None \<Rightarrow> currentData)
                     (executed @ [e_id registration]) e1
               | (Threw err, e1) \<Rightarrow> Some (Inl (NotDefined ''hookStartTime''), executed, e1))
         else Some (Inr currentData, executed, e))"

definition executeHooks ::
  "nat \<Rightarrow> ('p, 'c) emitter_env \<Rightarrow> string \<Rightarrow> 'p \<Rightarrow> 'c \<Rightarrow> HookableEventEmitter
     \<Rightarrow> ((js_error + 'p) \<times> nat list \<times> HookableEventEmitter) option" where
  "executeHooks fuel env ev d c e =
     (case map_of (e_hookRegistrations e) ev of
        None \<Rightarrow> Some (Inr d, [], e)
      | Some a \<Rightarrow>
          if length (arrayAt (e_arrays e) a) = 0 then Some (Inr d, [], e)
          else executeLoop fuel env c a 0 d [] e)"


section \<open>HookManager (\<^verbatim>\<open>src/core/HookManager.ts\<close>)\<close>

text \<open>
  The functions a manager's registrations refer to: a function of the integrator, or the
  \<^verbatim>\<open>wrappedHook\<close> closure of \<^verbatim>\<open>registerOneTimeHook\<close>, which knows the function it wraps and
  the id it unregisters.
\<close>

datatype mhook = UserHook nat | OneTimeWrapped nat string

text \<open>The function of the integrator that a reference ends up calling.\<close>

fun hookFunction :: "mhook \<Rightarrow> nat" where
  "hookFunction (UserHook f) = f"
| "hookFunction (OneTimeWrapped f hid) = f"

fun isUserHook :: "mhook \<Rightarrow> bool" where
  "isUserHook (UserHook f) = True"
| "isUserHook (OneTimeWrapped f hid) = False"

text \<open>\<^verbatim>\<open>PriorityHookRegistration\<close> of the manager; \<open>timeout\<close> is in milliseconds.\<close>

record PriorityHookRegistration =
  hook :: mhook
  priority :: int
  reg_id :: string
  reg_metadata :: "(string \<times> string) list"
  oneTime :: bool
  timeout :: "nat option"

record hook_stats =
  executionCount :: nat
  totalExecutionTime :: int
  averageExecutionTime :: real
  errorCount :: nat
  lastExecuted :: "int option"

text \<open>
  The fields of \<^verbatim>\<open>class HookManager\<close>; the two \<^verbatim>\<open>Map\<close>s are the lists of their entries in
  insertion order, the two \<^verbatim>\<open>Set\<close>s the lists of their members.
\<close>

record HookManager =
  arrays :: "PriorityHookRegistration list list"
  hookRegistrations :: "(string \<times> nat) list"
  hookStats :: "(string \<times> hook_stats) list"
  globalHooks :: "mhook list"
  errorHandlers :: "nat list"

definition newHookManager :: HookManager where
  "newHookManager =
     \<lparr>arrays = [], hookRegistrations = [], hookStats = [], globalHooks = [], errorHandlers = []\<rparr>"


text \<open>
  What both registration functions do with the registration they have built: create the
  event's array if the \<^verbatim>\<open>Map\<close> has none, push, sort in place by priority, and set the
  hook's statistics to zero.
\<close>

definition addRegistration :: "string \<Rightarrow> PriorityHookRegistration \<Rightarrow> HookManager \<Rightarrow> HookManager" where
  "addRegistration ev registration m =
     (let m1 = (if map_of (hookRegistrations m) ev = None
                then m\<lparr>arrays := arrays m @ [[]],
                       hookRegistrations := hookRegistrations m @ [(ev, length (arrays m))]\<rparr>
                else m);
          m2 = (case map_of (hookRegistrations m1) ev of
                  None \<Rightarrow> m1
                | Some a \<Rightarrow>
                    m1\<lparr>arrays := (arrays m1)
                          [a := sort_key priority (arrayAt (arrays m1) a @ [registration])]\<rparr>)
      in m2\<lparr>hookStats := AList.update (reg_id registration)
               \<lparr>executionCount = 0, totalExecutionTime = 0, averageExecutionTime = 0,
                errorCount = 0, lastExecuted = None\<rparr> (hookStats m2)\<rparr>)"



text \<open>
  \<^verbatim>\<open>unregisterHookById\<close>: goes through the events in the order of the \<^verbatim>\<open>Map\<close> and removes
  the first registration with that id from the first array that has one.
\<close>

fun unregisterLoop :: "string \<Rightarrow> (string \<times> nat) list \<Rightarrow> HookManager \<Rightarrow> bool \<times> HookManager" where
  "unregisterLoop hid [] m = (False, m)"
| "unregisterLoop hid ((ev, a) # rest) m =
     (case findIndex (\<lambda>reg. reg_id reg = hid) (arrayAt (arrays m) a) of
        Some i \<Rightarrow>
          (True, m\<lparr>arrays := (arrays m)[a := splice1 i (arrayAt (arrays m) a)],
                   hookStats := AList.delete hid (hookStats m)\<rparr>)
      | None \<Rightarrow> unregisterLoop hid rest m)"

definition unregisterHookById :: "string \<Rightarrow> HookManager \<Rightarrow> bool \<times> HookManager" where
  "unregisterHookById hid m = unregisterLoop hid (hookRegistrations m) m"

text \<open>\<^verbatim>\<open>unregisterHook\<close>, by function reference.\<close>

definition unregisterHook :: "string \<Rightarrow> mhook \<Rightarrow> HookManager \<Rightarrow> bool \<times> HookManager" where
  "unregisterHook ev h m =
     (case map_of (hookRegistrations m) ev of
        None \<Rightarrow> (False, m)
      | Some a \<Rightarrow>
          (case findIndex (\<lambda>reg. hook reg = h) (arrayAt (arrays m) a) of
             None \<Rightarrow> (False, m)
           | Some i \<Rightarrow>
               (True, m\<lparr>arrays := (arrays m)[a := splice1 i (arrayAt (arrays m) a)],
                        hookStats := AList.delete (reg_id (arrayAt (arrays m) a ! i)) (hookStats m)\<rparr>)))"

text \<open>\<^verbatim>\<open>clearAllHooks\<close> empties the \<^verbatim>\<open>Map\<close>s and the set; the arrays themselves stay as they are.\<close>

definition clearAllHooks :: "HookManager \<Rightarrow> HookManager" where
  "clearAllHooks m = m\<lparr>hookRegistrations := [], hookStats := [], globalHooks := []\<rparr>"

text \<open>\<^verbatim>\<open>getHookInfo\<close>.\<close>

definition getHookInfo :: "string \<Rightarrow> HookManager \<Rightarrow> (string \<times> int) list" where
  "getHookInfo ev m =
     (case map_of (hookRegistrations m) ev of
        None \<Rightarrow> []
      | Some a \<Rightarrow> map (\<lambda>reg. (reg_id reg, priority reg)) (arrayAt (arrays m) a))"

text \<open>\<^verbatim>\<open>updateHookStats\<close>, at clock reading \<open>now\<close>.\<close>

definition updateHookStats :: "string \<Rightarrow> int \<Rightarrow> bool \<Rightarrow> int \<Rightarrow> HookManager \<Rightarrow> HookManager" where
  "updateHookStats hid execTime hasError now m =
     (case map_of (hookStats m) hid of
        None \<Rightarrow> m
      | Some st \<Rightarrow>
          m\<lparr>hookStats := AList.update hid
              (st\<lparr>executionCount := executionCount st + 1,
                  totalExecutionTime := totalExecutionTime st + execTime,
                  averageExecutionTime :=
                    real_of_int (totalExecutionTime st + execTime) / real (executionCount st + 1),
                  lastExecuted := Some now,
                  errorCount := (if hasError then errorCount st + 1 else errorCount st)\<rparr>)
              (hookStats m)\<rparr>)"

text \<open>
  The payload and the context that \<^verbatim>\<open>executeHooksWithMonitoring\<close> hands to the hooks are
  objects: every hook gets the same references, and what one hook writes into the payload
  in place is there for the next. So the objects live in a store, addressed by position,
  next to the manager, and \<^verbatim>\<open>data\<close>, \<^verbatim>\<open>context\<close>, \<^verbatim>\<open>modifiedData\<close> and the \<^verbatim>\<open>context\<close> of a
  \<^verbatim>\<open>HookError\<close> are addresses. A value that a hook makes and returns is a new object at
  the end of the store.
\<close>

record 'v world =
  w_manager :: HookManager
  w_objects :: "'v list"


text \<open>Something a function does to the manager or to the objects.\<close>

type_synonym 'v effect = "'v world \<Rightarrow> 'v world"

text \<open>
  A run of a function under the manager: how it completes (\<open>Returned (Some a)\<close> returns
  the object at address \<open>a\<close>, which may be the payload it was given), after how many
  milliseconds, whether it is asynchronous, and what it does later. An asynchronous
  function hands back a promise at once and the promise settles \<open>duration\<close> ms later; a
  function that is not computes for \<open>duration\<close> ms without giving up the thread and then
  returns or throws. What the function does before it first gives up the thread is in the
  world that the environment returns with the run; \<open>later\<close> lists what it does after
  that (behind an \<^verbatim>\<open>await\<close>, or in a callback it left behind), each with its delay in
  milliseconds after the call.
\<close>

record 'v hook_run =
  completion :: "nat completion"
  duration :: nat
  asynchronous :: bool
  later :: "(nat \<times> 'v effect) list"

text \<open>
  What the functions of the integrator do, for a manager: given the addresses of the
  payload and of the context and the world, the run and the world as the call leaves it.
\<close>

type_synonym 'v manager_env =
  "nat \<Rightarrow> nat \<Rightarrow> nat \<Rightarrow> 'v world \<Rightarrow> 'v hook_run \<times> 'v world"

text \<open>
  \<^verbatim>\<open>executeWithTimeout\<close>: what the awaiting dispatcher gets, and after how long. The timer
  is set before the function is called. While the function computes the timer cannot
  fire; when the function has returned, its result settles the race in a microtask,
  ahead of any timer. So the timer wins only against a promise that is still pending when
  it is due (and, set first, it wins a tie).
\<close>

definition executeWithTimeout :: "nat \<Rightarrow> 'v hook_run \<Rightarrow> nat completion \<times> nat" where
  "executeWithTimeout t run =
     (if asynchronous run \<and> t \<le> duration run then (Threw (TimedOut t), t)
      else (completion run, duration run))"

text \<open>
  The awaited expression of the loop: \<^verbatim>\<open>registration.timeout ? executeWithTimeout(...) :
  Promise.resolve(registration.hook(data, context))\<close>. A timeout of 0 is falsy.
\<close>

definition awaitHook :: "PriorityHookRegistration \<Rightarrow> 'v hook_run \<Rightarrow> nat completion \<times> nat" where
  "awaitHook registration run =
     (case timeout registration of
        None \<Rightarrow> (completion run, duration run)
      | Some t \<Rightarrow> if t = 0 then (completion run, duration run) else executeWithTimeout t run)"

text \<open>
  Effects wait with the time at which they are due. \<open>runEffects\<close> lets effects happen in
  the order of their due times; \<open>firePending\<close> lets those happen that are due by \<open>now\<close> and
  keeps the others.
\<close>

definition runEffects :: "(int \<times> 'v effect) list \<Rightarrow> 'v world \<Rightarrow> 'v world" where
  "runEffects es w = fold (\<lambda>(due, g) w'. g w') (sort_key fst es) w"

definition firePending ::
  "int \<Rightarrow> (int \<times> 'v effect) list \<Rightarrow> 'v world \<Rightarrow> (int \<times> 'v effect) list \<times> 'v world" where
  "firePending now pending w =
     (filter (\<lambda>(due, g). now < due) pending,
      runEffects (filter (\<lambda>(due, g). due \<le> now) pending) w)"

text \<open>
  What the wrapper of a registration does by itself after the function it wraps has
  settled: the \<^verbatim>\<open>wrappedHook\<close> of \<^verbatim>\<open>registerOneTimeHook\<close> calls \<^verbatim>\<open>unregisterHookById\<close>, on
  success and on failure alike; a plain registration has no wrapper.
\<close>

definition unregisterLater :: "string \<Rightarrow> 'v effect" where
  "unregisterLater hid w = w\<lparr>w_manager := snd (unregisterHookById hid (w_manager w))\<rparr>"

definition wrapperEffects :: "PriorityHookRegistration \<Rightarrow> 'v hook_run \<Rightarrow> (nat \<times> 'v effect) list" where
  "wrapperEffects registration run =
     (case hook registration of
        UserHook f \<Rightarrow> []
      | OneTimeWrapped f hid \<Rightarrow> [(duration run, unregisterLater hid)])"

text \<open>The effects of a list, with the times at which they are due after a call at \<open>now\<close>.\<close>

definition scheduledAt :: "int \<Rightarrow> (nat \<times> 'v effect) list \<Rightarrow> (int \<times> 'v effect) list" where
  "scheduledAt now es = map (\<lambda>(delay, g). (now + int delay, g)) es"

text \<open>
  Calling the registered function at time \<open>now\<close> and awaiting it. The result is what the
  dispatcher gets, after how long, the effects still to come, and the world when the
  dispatcher goes on.

  What belongs to the awaited promise itself is its \<open>chain\<close>: the rest of an asynchronous
  function, and the unregistration by the wrapper of a one-time hook. Everything else
  that is still to come sits with a timer: the effects left by earlier calls, and what a
  function that kept the thread left behind. When the dispatcher has waited for a pending
  promise, the event loop has run, and every effect due by the time the dispatcher goes
  on has happened, in the order of the due times. When the awaited value was there at
  once (the function kept the thread, or its promise was settled without waiting), the
  dispatcher goes on in a microtask, ahead of every timer: then only the effects of the
  chain that were due have happened. When the dispatcher stops waiting early (a timeout),
  what the function and its wrapper do after that is still to come.
\<close>

definition invokeHook ::
  "'v manager_env \<Rightarrow> PriorityHookRegistration \<Rightarrow> nat \<Rightarrow> nat \<Rightarrow> int \<Rightarrow> (int \<times> 'v effect) list
     \<Rightarrow> 'v world \<Rightarrow> nat completion \<times> nat \<times> (int \<times> 'v effect) list \<times> 'v world" where
  "invokeHook env registration d c now pending w =
     (let (run, w1) = env (hookFunction (hook registration)) d c w;
          (outcome, elapsed) = awaitHook registration run;
          chain = scheduledAt now
                    ((if asynchronous run then later run else []) @ wrapperEffects registration run);
          timers = pending @ scheduledAt now (if asynchronous run then [] else later run);
          waited = (asynchronous run \<and> 0 < elapsed);
          (left, w2) = firePending (now + int elapsed) (if waited then timers @ chain else chain) w1
      in (outcome, elapsed, (if waited then left else timers @ left), w2))"

text \<open>\<^verbatim>\<open>HookExecutionResult\<close>, its \<^verbatim>\<open>executedHooks\<close> entries, and \<^verbatim>\<open>HookError\<close>.\<close>

record executed_hook =
  x_hookId :: string
  x_priority :: int
  x_executionTime :: int
  x_success :: bool
  x_modifiedData :: bool

record HookError =
  err_hookId :: string
  err_event :: string
  err_error :: js_error
  err_context :: nat
  err_timestamp :: int
  err_executionTime :: int

record HookExecutionResult =
  success :: bool
  executedHooks :: "executed_hook list"
  errors :: "HookError list"
  modifiedData :: nat
  executionTime :: int
  hookCount :: nat

text \<open>
  The two log lines of the loop, \<^verbatim>\<open>Hook executed successfully\<close> and
  \<^verbatim>\<open>Hook execution failed\<close>, with the \<^verbatim>\<open>hookId\<close> they carry.
\<close>

datatype log_line = Succeeded string | Failed string

fun logged_id :: "log_line \<Rightarrow> string" where
  "logged_id (Succeeded hid) = hid"
| "logged_id (Failed hid) = hid"

text \<open>
  The state of a dispatch in flight: the clock, the local \<^verbatim>\<open>data\<close> (an address), the
  result under construction, the log lines written, the errors delivered to the error
  handlers (\<^verbatim>\<open>notifyErrorHandlers\<close>; a handler is an observer, whatever it does or throws
  is swallowed), the effects still to come, and the world. The clock advances only while
  a hook is awaited.
\<close>

record 'v dispatch =
  ds_now :: int
  ds_data :: nat
  ds_result :: HookExecutionResult
  ds_log :: "log_line list"
  ds_notified :: "(nat \<times> HookError) list"
  ds_pending :: "(int \<times> 'v effect) list"
  ds_world :: "'v world"

text \<open>The body of the loop for one registration: the \<^verbatim>\<open>try\<close> block and the \<^verbatim>\<open>catch\<close> block.\<close>

definition hookStep ::
  "'v manager_env \<Rightarrow> string \<Rightarrow> nat \<Rightarrow> PriorityHookRegistration \<Rightarrow> 'v dispatch \<Rightarrow> 'v dispatch" where
  "hookStep env ev c registration s =
     (let hookStartTime = ds_now s;
          (outcome, elapsed, pending, w1) =
             invokeHook env registration (ds_data s) c hookStartTime (ds_pending s) (ds_world s);
          now = hookStartTime + int elapsed;
          hookDuration = now - hookStartTime;
          res = ds_result s
      in case outcome of
           Returned hookResult \<Rightarrow>
             s\<lparr>ds_now := now,
               ds_data := (case hookResult of Some a \<Rightarrow> a | None \<Rightarrow> ds_data s),
               ds_result := res
                 \<lparr>executedHooks := executedHooks res @
                    [\<lparr>x_hookId = reg_id registration, x_priority = priority registration,
                      x_executionTime = hookDuration, x_success = True,
                      x_modifiedData = (hookResult \<noteq> None)\<rparr>],
                  modifiedData := (case hookResult of Some a \<Rightarrow> a | None \<Rightarrow> modifiedData res)\<rparr>,
               ds_log := ds_log s @ [Succeeded (reg_id registration)],
               ds_pending := pending,
               ds_world := w1\<lparr>w_manager :=
                  updateHookStats (reg_id registration) hookDuration False now (w_manager w1)\<rparr>\<rparr>
         | Threw err \<Rightarrow>
             (let hookError = \<lparr>err_hookId = reg_id registration, err_event = ev, err_error = err,
                               err_context = c, err_timestamp = now,
                               err_executionTime = hookDuration\<rparr>;
                  m2 = updateHookStats (reg_id registration) hookDuration True now (w_manager w1)
              in s\<lparr>ds_now := now,
                   ds_result := res\<lparr>errors := errors res @ [hookError]\<rparr>,
                   ds_log := ds_log s @ [Failed (reg_id registration)],
                   ds_notified := ds_notified s @ map (\<lambda>h. (h, hookError)) (errorHandlers m2),
                   ds_pending := pending,
                   ds_world := w1\<lparr>w_manager := m2\<rparr>\<rparr>))"

text \<open>
  The \<^verbatim>\<open>for ... of\<close> loop of \<^verbatim>\<open>executeHooksWithMonitoring\<close> over the array at address \<open>a\<close>,
  from position \<open>i\<close>. As in the emitter, the iterator reads the live array, and the loop
  needs one unit of fuel for each test of the position; \<open>None\<close> is a loop that has not
  finished when the fuel is used up. Between the end of one step and the next test of the
  position the dispatcher keeps the thread.
\<close>

fun hooksLoop ::
  "nat \<Rightarrow> 'v manager_env \<Rightarrow> string \<Rightarrow> nat \<Rightarrow> nat \<Rightarrow> nat \<Rightarrow> 'v dispatch \<Rightarrow> 'v dispatch option" where
  "hooksLoop 0 env ev c a i s = None"
| "hooksLoop (Suc fuel) env ev c a i s =
     (let registrations = arrayAt (arrays (w_manager (ds_world s))) a
      in if i < length registrations
         then hooksLoop fuel env ev c a (Suc i) (hookStep env ev c (registrations ! i) s)
         else Some s)"

text \<open>
  The state in which \<^verbatim>\<open>executeHooksWithMonitoring\<close> enters its loop: \<^verbatim>\<open>result\<close> as it is
  initialised, with \<^verbatim>\<open>hookCount\<close> the length of the array at that moment.
\<close>

definition initialDispatch ::
  "nat \<Rightarrow> int \<Rightarrow> (int \<times> 'v effect) list \<Rightarrow> 'v world \<Rightarrow> nat \<Rightarrow> 'v dispatch" where
  "initialDispatch d startTime pending w a =
     \<lparr>ds_now = startTime, ds_data = d,
      ds_result = \<lparr>success = True, executedHooks = [], errors = [], modifiedData = d,
                   executionTime = 0,
                   hookCount = length (arrayAt (arrays (w_manager w)) a)\<rparr>,
      ds_log = [], ds_notified = [], ds_pending = pending, ds_world = w\<rparr>"

text \<open>
  \<^verbatim>\<open>executeHooksWithMonitoring\<close> on the payload at address \<open>d\<close> with the context at address
  \<open>c\<close>, started at time \<open>startTime\<close> with the effects \<open>pending\<close> still to come from earlier
  calls. The array is fetched from the \<^verbatim>\<open>Map\<close> once; an event without an array gets
  a fresh empty one, which only this call knows. At the end \<^verbatim>\<open>executionTime\<close> and
  \<^verbatim>\<open>success\<close> are filled in.
\<close>

definition executeHooksWithMonitoring ::
  "nat \<Rightarrow> 'v manager_env \<Rightarrow> string \<Rightarrow> nat \<Rightarrow> nat \<Rightarrow> int \<Rightarrow> (int \<times> 'v effect) list \<Rightarrow> 'v world
     \<Rightarrow> 'v dispatch option" where
  "executeHooksWithMonitoring fuel env ev d c startTime pending w =
     (let a = (case map_of (hookRegistrations (w_manager w)) ev of
                 Some x \<Rightarrow> x | None \<Rightarrow> length (arrays (w_manager w)))
      in case hooksLoop fuel env ev c a 0 (initialDispatch d startTime pending w a) of
           None \<Rightarrow> None
         | Some s \<Rightarrow>
             Some (s\<lparr>ds_result := (ds_result s)
                      \<lparr>executionTime := ds_now s - startTime,
                       success := (length (errors (ds_result s)) = 0)\<rparr>\<rparr>))"

text \<open>
  The ids of the log lines of each kind, in order, and the agreement of a result under
  construction with the log: \<^verbatim>\<open>errors\<close> lists the hooks logged as failed and
  \<^verbatim>\<open>executedHooks\<close> the hooks logged as executed.
\<close>

fun failedIds :: "log_line list \<Rightarrow> string list" where
  "failedIds [] = []"
| "failedIds (Failed hid # ls) = hid # failedIds ls"
| "failedIds (Succeeded hid # ls) = failedIds ls"

fun succeededIds :: "log_line list \<Rightarrow> string list" where
  "succeededIds [] = []"
| "succeededIds (Succeeded hid # ls) = hid # succeededIds ls"
| "succeededIds (Failed hid # ls) = succeededIds ls"

definition reportMatchesLog :: "'v dispatch \<Rightarrow> bool" where
  "reportMatchesLog s \<longleftrightarrow>
     map err_hookId (errors (ds_result s)) = failedIds (ds_log s)
     \<and> map x_hookId (executedHooks (ds_result s)) = succeededIds (ds_log s)"

text \<open>
  Conditions on what hooks do. An effect keeps the registration arrays when it leaves
  every array as it is, and keeps an object when it leaves that object as it is. The
  functions of an environment are quiet when no call and nothing a call leaves to happen
  later changes the registration arrays.
\<close>

definition keepsArrays :: "'v effect \<Rightarrow> bool" where
  "keepsArrays g \<longleftrightarrow> (\<forall>w. arrays (w_manager (g w)) = arrays (w_manager w))"


definition quietHooks :: "'v manager_env \<Rightarrow> bool" where
  "quietHooks env \<longleftrightarrow>
     (\<forall>f d c w. arrays (w_manager (snd (env f d c w))) = arrays (w_manager w)
        \<and> list_all (\<lambda>(delay, g). keepsArrays g) (later (fst (env f d c w))))"



section \<open>Inputs of the scenarios\<close>

text \<open>
  Concrete inputs for the scenarios evaluated below: a chunk with a given content and
  index, clocks whose readings within one call are all the same instant, buffers of each
  strategy created at time 0 with \<open>maxTime = 1000\<close> and no custom flush handler, and a
  manager limited to one buffer with a cleanup age of 1000 ms.
\<close>

definition textChunk :: "string \<Rightarrow> int \<Rightarrow> Chunk" where
  "textChunk s i = \<lparr>chunk_id = s, content = s, index = i, timestamp = 0, metadata = [],
                     isComplete = False, sequenceId = None\<rparr>"

definition atTime :: "int \<Rightarrow> add_clock" where
  "atTime t = \<lparr>t_start = t, t_stamp = t, t_check = t, t_end = t\<rparr>"

definition flushAt :: "int \<Rightarrow> flush_clock" where
  "flushAt t = \<lparr>f_start = t, f_age = t, f_hook = t, f_end = t\<rparr>"

definition createAt :: "int \<Rightarrow> create_clock" where
  "createAt t = \<lparr>c_cleanup = t, c_created = t, c_last = t, c_timer = t, c_info = t\<rparr>"

definition noOptions :: create_options where
  "noOptions = \<lparr>opt_config = None, opt_sequenceId = None, opt_metadata = None, opt_onFlush = None\<rparr>"

definition sizeBuffer :: "int \<Rightarrow> StreamBuffer" where
  "sizeBuffer n = newStreamBuffer 0 0 0 ''s''
      \<lparr>maxSize = n, maxTime = 1000, strategy = Size, enableMetrics = True\<rparr> None"

definition timeBuffer :: "int \<Rightarrow> StreamBuffer" where
  "timeBuffer n = newStreamBuffer 0 0 0 ''s''
      \<lparr>maxSize = n, maxTime = 1000, strategy = Time, enableMetrics = True\<rparr> None"

definition failingBuffer :: StreamBuffer where
  "failingBuffer = newStreamBuffer 0 0 0 ''s''
      \<lparr>maxSize = 3, maxTime = 1000, strategy = Size, enableMetrics = True\<rparr>
      (Some (\<lambda>d c. Inl (Thrown ''flush handler failed'')))"

definition afterA :: StreamBuffer where
  "afterA = snd (addChunk (atTime 1) (textChunk ''a'' 0) (sizeBuffer 3))"

definition afterB :: StreamBuffer where
  "afterB = snd (addChunk (atTime 2) (textChunk ''b'' 1) afterA)"

definition smallManager :: BufferManager where
  "smallManager = newBufferManager (defaultManagerConfig\<lparr>maxBuffers := 1, cleanupAge := 1000\<rparr>)"

definition firstCreated :: BufferManager where
  "firstCreated = snd (createBuffer (createAt 0) ''first'' noOptions smallManager)"

text \<open>
  Inputs for the hook scenarios. The payload is a string and the context is empty. For an
  emitter: function 1 appends \<open>X\<close>, function 2 appends \<open>Y\<close>, function 3 throws, any other
  returns \<^verbatim>\<open>undefined\<close>; none touches the emitter.
\<close>

definition emitterHooks :: "(string, unit) emitter_env" where
  "emitterHooks f d c e =
     (if f = 1 then (Returned (Some (d @ ''X'')), e)
      else if f = 2 then (Returned (Some (d @ ''Y'')), e)
      else if f = 3 then (Threw (Thrown ''boom''), e)
      else (Returned None, e))"

text \<open>
  An emitter with the throwing function at priority 10 and the function appending \<open>X\<close> at
  priority 20; and an emitter with the function appending \<open>X\<close> registered at priority 0
  (\<^verbatim>\<open>MessageHookPriority.CRITICAL\<close>) and then the function appending \<open>Y\<close> at priority 50.
\<close>

definition throwingEmitter :: HookableEventEmitter where
  "throwingEmitter =
     emitter_on ''message:before'' 1 (Some 20) (emitter_on ''message:before'' 3 (Some 10) newEmitter)"

definition criticalEmitter :: HookableEventEmitter where
  "criticalEmitter =
     emitter_on ''message:before'' 2 (Some 50) (emitter_on ''message:before'' 1 (Some 0) newEmitter)"


definition onceEmitter :: HookableEventEmitter where
  "onceEmitter = emitter_once ''message:before'' 1 None newEmitter"












section \<open>Helper facts about the buffer\<close>

lemmas fixture_defs = textChunk_def atTime_def flushAt_def createAt_def noOptions_def sizeBuffer_def
  timeBuffer_def failingBuffer_def smallManager_def afterA_def afterB_def firstCreated_def

lemmas buffer_defs = addChunk_def afterAppend_def shouldFlush_def newStreamBuffer_def
  startFlushTimer_def flush_def flushData_def flushPipeline_def flushSettle_def
  processBufferFlush_def runImmediate_def pause_def

lemmas manager_defs = createBuffer_def getBuffer_def cleanup_def tooOldOrInactive_def
  newBufferManager_def defaultManagerConfig_def createDefaultBufferConfig_def
  setupBufferEventListeners_def newStreamBuffer_def startFlushTimer_def

lemma shouldFlush_time:
  assumes "strategy (config b) = Time"
  shows "shouldFlush now b =
     (if int (length (chunks b)) \<ge> maxSize (config b) then (True, Some BySize)
      else if now - createdAt b \<ge> maxTime (config b) then (True, Some ByTime)
      else (False, None))"
  using assms by (simp add: shouldFlush_def Let_def)

lemma shouldFlush_size:
  assumes "strategy (config b) = Size"
  shows "shouldFlush now b =
     (if int (length (chunks b)) \<ge> maxSize (config b) then (True, Some BySize)
      else (False, None))"
  using assms by (simp add: shouldFlush_def Let_def)

lemma addChunk_active:
  assumes "isActive b"
  shows "addChunk clk c b =
    (let b1 = b\<lparr>chunks := chunks b @ [c], totalChunksAdded := totalChunksAdded b + 1,
                 lastChunkTime := t_stamp clk\<rparr>;
         hint = shouldFlush (t_check clk) b1
     in (\<lparr>res_shouldFlush = fst hint, res_flushReason = snd hint,
          res_bufferedChunks = length (chunks b) + 1\<rparr>,
         b1\<lparr>immediates := immediates b @ (case hint of (True, Some r) \<Rightarrow> [r] | _ \<Rightarrow> []),
            totalProcessingTime := totalProcessingTime b + (t_end clk - t_start clk)\<rparr>))"
  using assms
  by (auto simp: addChunk_def afterAppend_def Let_def split: prod.splits bool.splits option.splits)

lemma cleanupLoop_filter:
  "cleanupLoop now agelim bs =
     (map fst (filter (\<lambda>(k, i). tooOldOrInactive now agelim i) bs),
      filter (\<lambda>(k, i). \<not> tooOldOrInactive now agelim i) bs)"
  by (induction bs) (auto split: prod.splits)

lemma cleanup_buffers:
  "buffers (snd (cleanup now m)) =
     filter (\<lambda>(k, i). \<not> tooOldOrInactive now (cleanupAge (mgr_config m)) i) (buffers m)"
  by (simp add: cleanup_def cleanupLoop_filter)

lemma cleanup_config: "mgr_config (snd (cleanup now m)) = mgr_config m"
  by (simp add: cleanup_def split: prod.splits)

section \<open>The time strategy\<close>

text \<open>
  C2, as the code has it. Under strategy \<open>Time\<close>, \<^verbatim>\<open>addChunk\<close> on an active buffer signals
  a flush exactly when the chunk count after the append has reached \<open>maxSize\<close> (reason
  \<^verbatim>\<open>size\<close>) or \<open>now - createdAt \<ge> maxTime\<close> (reason \<^verbatim>\<open>time\<close>), where \<open>createdAt\<close> is the
  time the buffer was constructed: neither \<^verbatim>\<open>addChunk\<close> nor \<^verbatim>\<open>flush\<close> ever changes it.
\<close>

theorem time_strategy_flush_hint:
  assumes "isActive b" "strategy (config b) = Time"
  shows "(res_shouldFlush (fst (addChunk clk c b)) \<longleftrightarrow>
            maxSize (config b) \<le> int (length (chunks b)) + 1
            \<or> maxTime (config b) \<le> t_check clk - createdAt b)
       \<and> res_flushReason (fst (addChunk clk c b)) =
           (if maxSize (config b) \<le> int (length (chunks b)) + 1 then Some BySize
            else if maxTime (config b) \<le> t_check clk - createdAt b then Some ByTime
            else None)
       \<and> createdAt (snd (addChunk clk c b)) = createdAt b
       \<and> createdAt (snd (flush fclk r b)) = createdAt b"
proof -
  let ?b1 = "b\<lparr>chunks := chunks b @ [c], totalChunksAdded := totalChunksAdded b + 1,
                lastChunkTime := t_stamp clk\<rparr>"
  have add: "fst (addChunk clk c b) =
      \<lparr>res_shouldFlush = fst (shouldFlush (t_check clk) ?b1),
       res_flushReason = snd (shouldFlush (t_check clk) ?b1),
       res_bufferedChunks = length (chunks b) + 1\<rparr>"
    using assms(1) by (simp add: addChunk_active Let_def)
  have c1: "createdAt (snd (addChunk clk c b)) = createdAt b"
    using assms(1) by (simp add: addChunk_active Let_def)
  have c2: "createdAt (snd (flush fclk r b)) = createdAt b"
    by (simp add: flush_def flushData_def flushSettle_def Let_def split: sum.splits option.splits)
  show ?thesis
    using c1 c2 assms(2) by (simp add: add shouldFlush_time)
qed

text \<open>
  An instance: a time buffer with room for ten chunks, created at 0 with \<open>maxTime = 1000\<close>,
  receives its first chunk at 1200 and signals a flush by time.
\<close>

theorem time_strategy_flush_hint_witness:
  "isActive (timeBuffer 10) \<and> strategy (config (timeBuffer 10)) = Time
   \<and> res_shouldFlush (fst (addChunk (atTime 1200) (textChunk ''a'' 0) (timeBuffer 10)))
   \<and> res_flushReason (fst (addChunk (atTime 1200) (textChunk ''a'' 0) (timeBuffer 10))) = Some ByTime
   \<and> createdAt (snd (flush (flushAt 1300) ByTime (timeBuffer 10))) = 0"
  using time_strategy_flush_hint [of "timeBuffer 10" "atTime 1200" "textChunk ''a'' 0" "flushAt 1300" ByTime]
  by (simp add: timeBuffer_def newStreamBuffer_def startFlushTimer_def atTime_def)

text \<open>
  The claim as stated fails twice. A time buffer with \<open>maxSize = 1\<close> signals a flush on its
  first chunk at time 5, when \<open>now - createdAt = 5 < 1000\<close>. And the age does not start
  over at a flush: a time buffer created at 0 and flushed empty at 1500 signals a flush
  again for a chunk that arrives at 1501.
\<close>

theorem time_strategy_claim_counterexample:
  "res_shouldFlush (fst (addChunk (atTime 5) (textChunk ''a'' 0) (timeBuffer 1)))
   \<and> \<not> maxTime (config (timeBuffer 1)) \<le> t_check (atTime 5) - createdAt (timeBuffer 1)
   \<and> chunks (snd (flush (flushAt 1500) ByTime
               (snd (addChunk (atTime 1500) (textChunk ''a'' 0) (timeBuffer 10))))) = []
   \<and> res_shouldFlush (fst (addChunk (atTime 1501) (textChunk ''b'' 1)
        (snd (flush (flushAt 1500) ByTime
               (snd (addChunk (atTime 1500) (textChunk ''a'' 0) (timeBuffer 10)))))))"
  by (simp add: buffer_defs fixture_defs)

section \<open>What addChunk does\<close>

text \<open>
  C3, as the code has it. On an active buffer \<^verbatim>\<open>addChunk\<close> appends the chunk, counts it in
  \<^verbatim>\<open>totalChunksAdded\<close>, stamps \<^verbatim>\<open>lastChunkTime\<close>, evaluates \<^verbatim>\<open>shouldFlush\<close>, adds its
  processing time to \<^verbatim>\<open>totalProcessingTime\<close> and returns the hint with the new chunk
  count. It does not drain the chunk list before it returns; when the hint is to flush,
  it queues one call of \<^verbatim>\<open>flush\<close> with the hint's reason through \<^verbatim>\<open>setImmediate\<close>. Nothing
  else in the buffer changes.
\<close>

theorem addChunk_effects:
  assumes "isActive b"
  shows "addChunk clk c b =
    (let b1 = b\<lparr>chunks := chunks b @ [c], totalChunksAdded := totalChunksAdded b + 1,
                 lastChunkTime := t_stamp clk\<rparr>;
         hint = shouldFlush (t_check clk) b1
     in (\<lparr>res_shouldFlush = fst hint, res_flushReason = snd hint,
          res_bufferedChunks = length (chunks b) + 1\<rparr>,
         b1\<lparr>immediates := immediates b @ (case hint of (True, Some r) \<Rightarrow> [r] | _ \<Rightarrow> []),
            totalProcessingTime := totalProcessingTime b + (t_end clk - t_start clk)\<rparr>))
    \<and> chunks (snd (addChunk clk c b)) = chunks b @ [c]"
  using assms by (simp add: addChunk_active Let_def)

theorem addChunk_effects_witness:
  "isActive (sizeBuffer 3)
   \<and> fst (addChunk (atTime 1) (textChunk ''a'' 0) (sizeBuffer 3)) =
       \<lparr>res_shouldFlush = False, res_flushReason = None, res_bufferedChunks = 1\<rparr>
   \<and> chunks (snd (addChunk (atTime 1) (textChunk ''a'' 0) (sizeBuffer 3))) = [textChunk ''a'' 0]
   \<and> immediates (snd (addChunk (atTime 1) (textChunk ''a'' 0) (sizeBuffer 3))) = []"
  using addChunk_effects [of "sizeBuffer 3" "atTime 1" "textChunk ''a'' 0"]
  by (simp add: sizeBuffer_def newStreamBuffer_def atTime_def shouldFlush_def Let_def)

text \<open>
  The claim as stated fails: \<^verbatim>\<open>addChunk\<close> does trigger a flush on its own. A size buffer
  with \<open>maxSize = 1\<close> holds the chunk when \<^verbatim>\<open>addChunk\<close> returns and has queued a flush; once
  the event loop runs that callback the chunk list is empty, though no caller called
  \<^verbatim>\<open>flush\<close>.
\<close>

theorem addChunk_schedules_flush_counterexample:
  "chunks (snd (addChunk (atTime 1) (textChunk ''a'' 0) (sizeBuffer 1))) = [textChunk ''a'' 0]
   \<and> immediates (snd (addChunk (atTime 1) (textChunk ''a'' 0) (sizeBuffer 1))) = [BySize]
   \<and> chunks (runImmediate (flushAt 2)
        (snd (addChunk (atTime 1) (textChunk ''a'' 0) (sizeBuffer 1)))) = []"
  by (simp add: buffer_defs fixture_defs)

section \<open>Flush empties the buffer\<close>

text \<open>
  C7, as the code has it. After a completed \<^verbatim>\<open>flush\<close> on an active, non-empty buffer the
  chunk list is empty, whether the pipeline succeeded or failed; a second \<^verbatim>\<open>flush\<close> right
  after returns the empty list and changes nothing; and a failed flush leaves the buffer
  exactly as it was but for the emptied chunk list: nothing is queued again or retried.
\<close>

theorem flush_empties_active_buffer:
  assumes "isActive b" "chunks b \<noteq> []"
  shows "chunks (snd (flush clk r b)) = []
       \<and> flush clk' r' (snd (flush clk r b)) = (Inr [], snd (flush clk r b))
       \<and> (\<forall>e. fst (flush clk r b) = Inl e \<longrightarrow> snd (flush clk r b) = b\<lparr>chunks := []\<rparr>)"
  using assms
  by (auto simp: flush_def flushData_def flushSettle_def Let_def split: sum.splits option.splits)

text \<open>An instance with a flush handler that fails: one chunk is buffered, then flushed.\<close>

theorem flush_empties_active_buffer_witness:
  "isActive (snd (addChunk (atTime 1) (textChunk ''a'' 0) failingBuffer))
   \<and> chunks (snd (addChunk (atTime 1) (textChunk ''a'' 0) failingBuffer)) \<noteq> []
   \<and> fst (flush (flushAt 2) Manual (snd (addChunk (atTime 1) (textChunk ''a'' 0) failingBuffer)))
       = Inl (Thrown ''flush handler failed'')
   \<and> chunks (snd (flush (flushAt 2) Manual
               (snd (addChunk (atTime 1) (textChunk ''a'' 0) failingBuffer)))) = []
   \<and> fst (flush (flushAt 3) Manual (snd (flush (flushAt 2) Manual
               (snd (addChunk (atTime 1) (textChunk ''a'' 0) failingBuffer))))) = Inr []"
  using flush_empties_active_buffer
    [of "snd (addChunk (atTime 1) (textChunk ''a'' 0) failingBuffer)" "flushAt 2" Manual "flushAt 3" Manual]
  by (simp add: buffer_defs fixture_defs)

text \<open>
  The claim as stated fails on a paused buffer: \<^verbatim>\<open>flush\<close> returns the empty list at once
  and the chunk that was buffered before the pause stays in the chunk list.
\<close>

theorem flush_paused_buffer_counterexample:
  "chunks (pause (snd (addChunk (atTime 1) (textChunk ''a'' 0) (sizeBuffer 3)))) = [textChunk ''a'' 0]
   \<and> fst (flush (flushAt 2) Manual
        (pause (snd (addChunk (atTime 1) (textChunk ''a'' 0) (sizeBuffer 3))))) = Inr []
   \<and> chunks (snd (flush (flushAt 2) Manual
        (pause (snd (addChunk (atTime 1) (textChunk ''a'' 0) (sizeBuffer 3)))))) = [textChunk ''a'' 0]"
  by (simp add: buffer_defs fixture_defs)

section \<open>The size strategy\<close>

text \<open>
  C8. Under strategy \<open>Size\<close>, \<^verbatim>\<open>addChunk\<close> (on a buffer that accepts chunks) returns
  \<^verbatim>\<open>shouldFlush = true\<close> if and only if the chunk count after the append is at least
  \<open>maxSize\<close>, and then with reason \<^verbatim>\<open>size\<close>. With \<open>maxSize = 3\<close>, the chunks \<open>a\<close>, \<open>b\<close>, \<open>c\<close>
  give no signal, no signal, and \<^verbatim>\<open>{shouldFlush: true, flushReason: 'size'}\<close>; the
  \<^verbatim>\<open>flush\<close> that follows returns \<open>[a, b, c]\<close> in that order and leaves the buffer empty.
\<close>

theorem size_strategy_flush_hint:
  assumes "isActive b" "strategy (config b) = Size"
  shows "(res_shouldFlush (fst (addChunk clk c b)) \<longleftrightarrow>
            maxSize (config b) \<le> int (length (chunks (snd (addChunk clk c b)))))
       \<and> res_flushReason (fst (addChunk clk c b)) =
            (if res_shouldFlush (fst (addChunk clk c b)) then Some BySize else None)
       \<and> \<not> res_shouldFlush (fst (addChunk (atTime 1) (textChunk ''a'' 0) (sizeBuffer 3)))
       \<and> \<not> res_shouldFlush (fst (addChunk (atTime 2) (textChunk ''b'' 1) afterA))
       \<and> fst (addChunk (atTime 3) (textChunk ''c'' 2) afterB) =
            \<lparr>res_shouldFlush = True, res_flushReason = Some BySize, res_bufferedChunks = 3\<rparr>
       \<and> fst (flush (flushAt 4) BySize (snd (addChunk (atTime 3) (textChunk ''c'' 2) afterB))) =
            Inr [textChunk ''a'' 0, textChunk ''b'' 1, textChunk ''c'' 2]
       \<and> chunks (snd (flush (flushAt 4) BySize
            (snd (addChunk (atTime 3) (textChunk ''c'' 2) afterB)))) = []"
proof -
  have general: "(res_shouldFlush (fst (addChunk clk c b)) \<longleftrightarrow>
            maxSize (config b) \<le> int (length (chunks (snd (addChunk clk c b)))))
       \<and> res_flushReason (fst (addChunk clk c b)) =
            (if res_shouldFlush (fst (addChunk clk c b)) then Some BySize else None)"
    using assms by (simp add: addChunk_active Let_def shouldFlush_size)
  have scenario: "\<not> res_shouldFlush (fst (addChunk (atTime 1) (textChunk ''a'' 0) (sizeBuffer 3)))
       \<and> \<not> res_shouldFlush (fst (addChunk (atTime 2) (textChunk ''b'' 1) afterA))
       \<and> fst (addChunk (atTime 3) (textChunk ''c'' 2) afterB) =
            \<lparr>res_shouldFlush = True, res_flushReason = Some BySize, res_bufferedChunks = 3\<rparr>
       \<and> fst (flush (flushAt 4) BySize (snd (addChunk (atTime 3) (textChunk ''c'' 2) afterB))) =
            Inr [textChunk ''a'' 0, textChunk ''b'' 1, textChunk ''c'' 2]
       \<and> chunks (snd (flush (flushAt 4) BySize
            (snd (addChunk (atTime 3) (textChunk ''c'' 2) afterB)))) = []"
    by (simp add: buffer_defs fixture_defs)
  from general scenario show ?thesis by blast
qed

theorem size_strategy_flush_hint_witness:
  "isActive afterB \<and> strategy (config afterB) = Size
   \<and> res_shouldFlush (fst (addChunk (atTime 3) (textChunk ''c'' 2) afterB))
   \<and> maxSize (config afterB) \<le> int (length (chunks (snd (addChunk (atTime 3) (textChunk ''c'' 2) afterB))))
   \<and> res_flushReason (fst (addChunk (atTime 3) (textChunk ''c'' 2) afterB)) = Some BySize"
  using size_strategy_flush_hint [of afterB "atTime 3" "textChunk ''c'' 2"]
  by (simp add: buffer_defs fixture_defs)

section \<open>Inactive buffers drop chunks\<close>

text \<open>
  C10. On a buffer that has been paused or destroyed, \<^verbatim>\<open>addChunk\<close> and \<^verbatim>\<open>addChunks\<close>
  return \<^verbatim>\<open>{shouldFlush: false, bufferedChunks: 0}\<close> and leave the whole buffer, in
  particular its chunk list, \<^verbatim>\<open>totalChunksAdded\<close> and \<^verbatim>\<open>lastChunkTime\<close>, as it was: the
  chunk is dropped, not queued and not rejected.
\<close>

theorem inactive_buffer_drops_chunks:
  "addChunk clk c (pause b) =
     (\<lparr>res_shouldFlush = False, res_flushReason = None, res_bufferedChunks = 0\<rparr>, pause b)
   \<and> addChunks clk cs (pause b) =
     (\<lparr>res_shouldFlush = False, res_flushReason = None, res_bufferedChunks = 0\<rparr>, pause b)
   \<and> addChunk clk c (snd (destroy b)) =
     (\<lparr>res_shouldFlush = False, res_flushReason = None, res_bufferedChunks = 0\<rparr>, snd (destroy b))
   \<and> addChunks clk cs (snd (destroy b)) =
     (\<lparr>res_shouldFlush = False, res_flushReason = None, res_bufferedChunks = 0\<rparr>, snd (destroy b))"
  by (simp add: addChunk_def addChunks_def pause_def destroy_def clear_def)

section \<open>Creating a buffer\<close>

text \<open>
  C9, as the code has it. \<^verbatim>\<open>createBuffer\<close> with an id that exists fails with the
  duplicate error and changes nothing. With a new id and the manager at its limit, it
  runs one \<^verbatim>\<open>cleanup\<close> pass, which removes exactly the buffers created more than
  \<open>cleanupAge\<close> ago or inactive for more than half of \<open>cleanupAge\<close>; it fails with the
  capacity error exactly when the buffers that remain still number \<open>maxBuffers\<close> or
  more, and then the remaining buffers are what the manager keeps; otherwise the new
  buffer is entered in the manager after the ones that remain.
\<close>

theorem createBuffer_checks:
  "(map_of (buffers m) bid \<noteq> None \<longrightarrow>
       createBuffer clk bid opts m = (Inl (AlreadyExists bid), m))
   \<and> (map_of (buffers m) bid = None \<and> maxBuffers (mgr_config m) \<le> int (length (buffers m)) \<longrightarrow>
        (let kept = filter (\<lambda>(k, i). \<not> tooOldOrInactive (c_cleanup clk) (cleanupAge (mgr_config m)) i)
                      (buffers m)
         in (fst (createBuffer clk bid opts m) = Inl (LimitReached bid (maxBuffers (mgr_config m)))
               \<longleftrightarrow> maxBuffers (mgr_config m) \<le> int (length kept))
          \<and> (maxBuffers (mgr_config m) \<le> int (length kept) \<longrightarrow>
               buffers (snd (createBuffer clk bid opts m)) = kept)
          \<and> (int (length kept) < maxBuffers (mgr_config m) \<longrightarrow>
               map fst (buffers (snd (createBuffer clk bid opts m))) = map fst kept @ [bid])))"
  by (auto simp: createBuffer_def Let_def cleanup_buffers cleanup_config setupBufferEventListeners_def)

text \<open>
  Instances, on a manager limited to one buffer that holds the buffer \<open>first\<close>, created
  at 0: a second \<open>first\<close> is a duplicate; \<open>second\<close> at time 100 finds \<open>first\<close> neither old
  nor inactive and fails for capacity; \<open>second\<close> at time 1500 evicts \<open>first\<close> and takes its
  place.
\<close>

theorem createBuffer_checks_witness:
  "map_of (buffers firstCreated) ''first'' \<noteq> None
   \<and> createBuffer (createAt 50) ''first'' noOptions firstCreated
       = (Inl (AlreadyExists ''first''), firstCreated)
   \<and> map_of (buffers firstCreated) ''second'' = None
   \<and> maxBuffers (mgr_config firstCreated) \<le> int (length (buffers firstCreated))
   \<and> fst (createBuffer (createAt 100) ''second'' noOptions firstCreated)
       = Inl (LimitReached ''second'' 1)
   \<and> map fst (buffers (snd (createBuffer (createAt 100) ''second'' noOptions firstCreated)))
       = [''first'']
   \<and> map fst (buffers (snd (createBuffer (createAt 1500) ''second'' noOptions firstCreated)))
       = [''second'']"
  using createBuffer_checks [of firstCreated "''first''" "createAt 50" noOptions]
        createBuffer_checks [of firstCreated "''second''" "createAt 100" noOptions]
        createBuffer_checks [of firstCreated "''second''" "createAt 1500" noOptions]
  by (simp add: manager_defs fixture_defs Let_def)

text \<open>
  The claim as stated fails. The manager is limited to one buffer, with a cleanup age of
  1000 ms, and holds \<open>first\<close>, created at 0. When \<open>first\<close> was last used at 1999, creating
  \<open>second\<close> at 2000 does not fail for capacity: \<open>first\<close> is evicted for its age although
  it is active. And creating \<open>second\<close> at 600 evicts \<open>first\<close> although it has been idle
  for less than the cleanup age.
\<close>

theorem createBuffer_eviction_counterexample:
  "map fst (buffers firstCreated) = [''first'']
   \<and> fst (createBuffer (createAt 2000) ''second'' noOptions (snd (getBuffer 1999 ''first'' firstCreated)))
       \<noteq> Inl (LimitReached ''second'' 1)
   \<and> map fst (buffers (snd (createBuffer (createAt 2000) ''second'' noOptions
         (snd (getBuffer 1999 ''first'' firstCreated))))) = [''second'']
   \<and> map fst (buffers (snd (createBuffer (createAt 600) ''second'' noOptions firstCreated))) = [''second'']"
  by (simp add: manager_defs fixture_defs Let_def)

section \<open>Helper facts about the dispatch loops\<close>

lemmas emitter_defs = emitter_on_def emitter_registerHook_def newEmitter_def arrayAt_def
  executeHooks_def emitter_call_def emitterHooks_def throwingEmitter_def criticalEmitter_def Let_def


lemma updateHookStats_arrays [simp]:
  "arrays (updateHookStats hid t err now m) = arrays m"
  by (simp add: updateHookStats_def split: option.splits)

text \<open>
  Effects that all leave some aspect \<open>Q\<close> of the world as it is leave it as it is
  together, whichever of them happen.
\<close>

lemma scheduledAt_keeps:
  "list_all (\<lambda>(delay, g). P g) es \<Longrightarrow> list_all (\<lambda>(due, g). P g) (scheduledAt now es)"
  by (induction es) (auto simp: scheduledAt_def)

lemma fold_keeps:
  "list_all (\<lambda>(due, g). \<forall>w. Q (g w) = Q w) es \<Longrightarrow> Q (fold (\<lambda>(due, g) w'. g w') es w) = Q w"
  by (induction es arbitrary: w) auto

lemma runEffects_keeps:
  assumes "list_all (\<lambda>(due, g). \<forall>w. Q (g w) = Q w) es"
  shows "Q (runEffects es w) = Q w"
proof -
  have "list_all (\<lambda>(due, g). \<forall>w. Q (g w) = Q w) (sort_key fst es)"
    using assms by (simp add: list_all_iff)
  then show ?thesis
    unfolding runEffects_def by (rule fold_keeps)
qed

lemma firePending_keeps:
  assumes "list_all (\<lambda>(due, g). \<forall>w. Q (g w) = Q w) es"
  shows "Q (snd (firePending now es w)) = Q w"
    and "list_all (\<lambda>(due, g). \<forall>w. Q (g w) = Q w) (fst (firePending now es w))"
proof -
  have "list_all (\<lambda>(due, g). \<forall>w. Q (g w) = Q w) (filter (\<lambda>(due, g). due \<le> now) es)"
    using assms by (simp add: list_all_iff)
  then show "Q (snd (firePending now es w)) = Q w"
    by (simp add: firePending_def runEffects_keeps)
  show "list_all (\<lambda>(due, g). \<forall>w. Q (g w) = Q w) (fst (firePending now es w))"
    using assms by (simp add: firePending_def list_all_iff)
qed

lemma invokeHook_keeps:
  assumes call: "env (hookFunction (hook r)) d c w = (run, wc)"
      and wc: "Q wc = Q w"
      and later: "list_all (\<lambda>(delay, g). \<forall>w. Q (g w) = Q w) (later run @ wrapperEffects r run)"
      and pending: "list_all (\<lambda>(due, g). \<forall>w. Q (g w) = Q w) pending"
      and inv: "invokeHook env r d c now pending w = (outcome, elapsed, pending', w2)"
  shows "Q w2 = Q w"
    and "list_all (\<lambda>(due, g). \<forall>w. Q (g w) = Q w) pending'"
proof -
  obtain outcome' elapsed' where aw: "awaitHook r run = (outcome', elapsed')"
    by (cases "awaitHook r run")
  let ?chain = "scheduledAt now
                  ((if asynchronous run then later run else []) @ wrapperEffects r run)"
  let ?timers = "pending @ scheduledAt now (if asynchronous run then [] else later run)"
  let ?P = "list_all (\<lambda>(due, g). \<forall>w. Q (g w) = Q w)"
  have chain: "?P ?chain"
    using later by (intro scheduledAt_keeps) simp
  have "?P (scheduledAt now (if asynchronous run then [] else later run))"
    using later by (intro scheduledAt_keeps) simp
  then have timers: "?P ?timers"
    using pending by simp
  have both: "?P (?timers @ ?chain)"
    using chain timers by simp
  show "Q w2 = Q w"
  proof (cases "asynchronous run \<and> 0 < elapsed'")
    case True
    then have "w2 = snd (firePending (now + int elapsed') (?timers @ ?chain) wc)"
      using inv by (auto simp: invokeHook_def call aw Let_def split_beta)
    then show ?thesis
      using firePending_keeps(1) [OF both] wc by simp
  next
    case False
    then have "w2 = snd (firePending (now + int elapsed') ?chain wc)"
      using inv by (auto simp: invokeHook_def call aw Let_def split_beta)
    then show ?thesis
      using firePending_keeps(1) [OF chain] wc by simp
  qed
  show "?P pending'"
  proof (cases "asynchronous run \<and> 0 < elapsed'")
    case True
    then have "pending' = fst (firePending (now + int elapsed') (?timers @ ?chain) wc)"
      using inv by (auto simp: invokeHook_def call aw Let_def split_beta)
    then show ?thesis
      using firePending_keeps(2) [OF both] by simp
  next
    case False
    then have "pending' = ?timers @ fst (firePending (now + int elapsed') ?chain wc)"
      using inv by (auto simp: invokeHook_def call aw Let_def split_beta)
    then show ?thesis
      using firePending_keeps(2) [OF chain] timers by simp
  qed
qed


lemma hookStep_plain:
  assumes env: "quietHooks env"
      and plain: "isUserHook (hook r)"
      and pending: "list_all (\<lambda>(due, g). keepsArrays g) (ds_pending s)"
  shows "list_all (\<lambda>(due, g). keepsArrays g) (ds_pending (hookStep env ev c r s))
       \<and> arrays (w_manager (ds_world (hookStep env ev c r s))) = arrays (w_manager (ds_world s))
       \<and> map logged_id (ds_log (hookStep env ev c r s)) = map logged_id (ds_log s) @ [reg_id r]"
proof -
  let ?Q = "\<lambda>w. arrays (w_manager w)"
  obtain run wc where call: "env (hookFunction (hook r)) (ds_data s) c (ds_world s) = (run, wc)"
    by (cases "env (hookFunction (hook r)) (ds_data s) c (ds_world s)")
  have wc: "?Q wc = ?Q (ds_world s)"
    using env call unfolding quietHooks_def by (metis snd_conv)
  have none: "wrapperEffects r run = []"
    using plain by (cases "hook r") (simp_all add: wrapperEffects_def)
  have "list_all (\<lambda>(delay, g). keepsArrays g) (later run)"
    using env call unfolding quietHooks_def by (metis fst_conv)
  then have later: "list_all (\<lambda>(delay, g). \<forall>w. ?Q (g w) = ?Q w) (later run @ wrapperEffects r run)"
    by (simp add: none keepsArrays_def)
  have pending': "list_all (\<lambda>(due, g). \<forall>w. ?Q (g w) = ?Q w) (ds_pending s)"
    using pending by (simp add: keepsArrays_def)
  obtain outcome elapsed left w2 where
    inv: "invokeHook env r (ds_data s) c (ds_now s) (ds_pending s) (ds_world s)
            = (outcome, elapsed, left, w2)"
    by (cases "invokeHook env r (ds_data s) c (ds_now s) (ds_pending s) (ds_world s)") auto
  have w2: "arrays (w_manager w2) = arrays (w_manager (ds_world s))"
    using invokeHook_keeps(1) [where Q = ?Q, OF call wc later pending' inv] .
  have left: "list_all (\<lambda>(due, g). keepsArrays g) left"
    using invokeHook_keeps(2) [where Q = ?Q, OF call wc later pending' inv]
    by (simp add: keepsArrays_def)
  show ?thesis
    using w2 left by (cases outcome) (simp_all add: hookStep_def inv Let_def)
qed

lemma hooksLoop_plain:
  assumes env: "quietHooks env"
  shows "list_all (\<lambda>(due, g). keepsArrays g) (ds_pending s) \<Longrightarrow>
         list_all (\<lambda>r. isUserHook (hook r)) (arrayAt (arrays (w_manager (ds_world s))) a) \<Longrightarrow>
         length (arrayAt (arrays (w_manager (ds_world s))) a) - i < fuel \<Longrightarrow>
         \<exists>s'. hooksLoop fuel env ev c a i s = Some s'
            \<and> map logged_id (ds_log s') =
                map logged_id (ds_log s)
                  @ map reg_id (drop i (arrayAt (arrays (w_manager (ds_world s))) a))
            \<and> arrays (w_manager (ds_world s')) = arrays (w_manager (ds_world s))"
proof (induction fuel arbitrary: i s)
  case 0
  then show ?case by simp
next
  case (Suc fuel)
  let ?regs = "arrayAt (arrays (w_manager (ds_world s))) a"
  show ?case
  proof (cases "i < length ?regs")
    case False
    then show ?thesis by simp
  next
    case True
    let ?r = "?regs ! i"
    let ?s1 = "hookStep env ev c ?r s"
    have r: "isUserHook (hook ?r)"
      using True Suc.prems(2) by (simp add: list_all_length)
    have step: "list_all (\<lambda>(due, g). keepsArrays g) (ds_pending ?s1)"
               "arrays (w_manager (ds_world ?s1)) = arrays (w_manager (ds_world s))"
               "map logged_id (ds_log ?s1) = map logged_id (ds_log s) @ [reg_id ?r]"
      using hookStep_plain [OF env r Suc.prems(1)] by auto
    have "\<exists>s'. hooksLoop fuel env ev c a (Suc i) ?s1 = Some s'
            \<and> map logged_id (ds_log s') =
                map logged_id (ds_log ?s1)
                  @ map reg_id (drop (Suc i) (arrayAt (arrays (w_manager (ds_world ?s1))) a))
            \<and> arrays (w_manager (ds_world s')) = arrays (w_manager (ds_world ?s1))"
      using Suc.prems True by (intro Suc.IH) (simp_all add: step)
    then obtain s' where s': "hooksLoop fuel env ev c a (Suc i) ?s1 = Some s'"
        "map logged_id (ds_log s') =
           map logged_id (ds_log ?s1)
             @ map reg_id (drop (Suc i) (arrayAt (arrays (w_manager (ds_world ?s1))) a))"
        "arrays (w_manager (ds_world s')) = arrays (w_manager (ds_world ?s1))"
      by blast
    have unfold: "hooksLoop (Suc fuel) env ev c a i s = hooksLoop fuel env ev c a (Suc i) ?s1"
      using True by simp
    have drop: "drop i ?regs = ?r # drop (Suc i) ?regs"
      using True by (simp add: Cons_nth_drop_Suc)
    show ?thesis
      unfolding unfold using s' by (simp add: step drop)
  qed
qed

text \<open>
  The manager's dispatcher does isolate a failure: whatever the hooks do, the result's
  \<^verbatim>\<open>errors\<close> are the hooks logged as failed, \<^verbatim>\<open>executedHooks\<close> the hooks logged as
  executed, and \<^verbatim>\<open>success\<close> says that none failed.
\<close>

lemma failedIds_append [simp]: "failedIds (xs @ ys) = failedIds xs @ failedIds ys"
  by (induction xs rule: failedIds.induct) auto

lemma succeededIds_append [simp]: "succeededIds (xs @ ys) = succeededIds xs @ succeededIds ys"
  by (induction xs rule: succeededIds.induct) auto

lemma hookStep_report:
  assumes "reportMatchesLog s"
  shows "reportMatchesLog (hookStep env ev c r s)"
proof -
  obtain outcome elapsed pending w1 where
    inv: "invokeHook env r (ds_data s) c (ds_now s) (ds_pending s) (ds_world s)
            = (outcome, elapsed, pending, w1)"
    by (cases "invokeHook env r (ds_data s) c (ds_now s) (ds_pending s) (ds_world s)") auto
  show ?thesis
    using assms
    by (cases outcome) (simp_all add: hookStep_def inv Let_def reportMatchesLog_def)
qed

lemma hooksLoop_report:
  "reportMatchesLog s \<Longrightarrow> hooksLoop fuel env ev c a i s = Some s' \<Longrightarrow> reportMatchesLog s'"
proof (induction fuel arbitrary: i s)
  case 0
  then show ?case by simp
next
  case (Suc fuel)
  let ?regs = "arrayAt (arrays (w_manager (ds_world s))) a"
  show ?case
  proof (cases "i < length ?regs")
    case True
    then have "hooksLoop fuel env ev c a (Suc i) (hookStep env ev c (?regs ! i) s) = Some s'"
      using Suc.prems(2) by (simp add: Let_def)
    then show ?thesis
      using Suc.IH hookStep_report [OF Suc.prems(1)] by blast
  next
    case False
    then have "s' = s"
      using Suc.prems(2) by (simp add: Let_def)
    then show ?thesis using Suc.prems(1) by simp
  qed
qed

lemma monitoring_report_matches_log:
  assumes "executeHooksWithMonitoring fuel env ev d c startTime pending w = Some s"
  shows "map err_hookId (errors (ds_result s)) = failedIds (ds_log s)
       \<and> map x_hookId (executedHooks (ds_result s)) = succeededIds (ds_log s)
       \<and> success (ds_result s) = (failedIds (ds_log s) = [])"
proof -
  let ?a = "case map_of (hookRegistrations (w_manager w)) ev of
              Some x \<Rightarrow> x | None \<Rightarrow> length (arrays (w_manager w))"
  let ?s0 = "initialDispatch d startTime pending w ?a"
  obtain s' where loop: "hooksLoop fuel env ev c ?a 0 ?s0 = Some s'"
    and s: "s = s'\<lparr>ds_result := (ds_result s')
                      \<lparr>executionTime := ds_now s' - startTime,
                       success := (length (errors (ds_result s')) = 0)\<rparr>\<rparr>"
    using assms by (auto simp: executeHooksWithMonitoring_def Let_def split: option.splits)
  have "reportMatchesLog ?s0"
    by (simp add: reportMatchesLog_def initialDispatch_def)
  then have "reportMatchesLog s'"
    by (rule hooksLoop_report [OF _ loop])
  then show ?thesis
    by (auto simp: s reportMatchesLog_def)
qed

text \<open>
  The manager keeps every array sorted by priority, with registrations of equal priority
  in the order they were made: after the registrations \<open>rs\<close>, made in this order on an event
  of a new manager, the array is the stable sort of \<open>rs\<close>. (\<^verbatim>\<open>registerHook\<close> and
  \<^verbatim>\<open>registerOneTimeHook\<close> are \<open>addRegistration\<close> applied to the registration they build.)
\<close>

lemma sort_key_append_sorted:
  "sort_key f (sort_key f xs @ ys) = sort_key f (xs @ ys)"
proof (rule sym, rule properties_for_sort_key)
  show "mset (sort_key f (sort_key f xs @ ys)) = mset (xs @ ys)"
    by simp
  show "sorted (map f (sort_key f (sort_key f xs @ ys)))"
    by (rule sorted_sort_key)
  show "filter (\<lambda>x. f k = f x) (sort_key f (sort_key f xs @ ys)) = filter (\<lambda>x. f k = f x) (xs @ ys)" for k
  proof -
    have eq: "(\<lambda>x. f k = f x) = (\<lambda>x. f x = f k)" by auto
    show ?thesis
      unfolding eq by (simp add: sort_key_stable)
  qed
qed

lemma addRegistration_existing:
  assumes "map_of (hookRegistrations m) ev = Some a" "a < length (arrays m)"
  shows "hookRegistrations (addRegistration ev r m) = hookRegistrations m"
    and "length (arrays (addRegistration ev r m)) = length (arrays m)"
    and "arrayAt (arrays (addRegistration ev r m)) a = sort_key priority (arrayAt (arrays m) a @ [r])"
  using assms by (simp_all add: addRegistration_def arrayAt_def Let_def)

lemma addRegistration_fresh:
  assumes "map_of (hookRegistrations m) ev = None"
  shows "map_of (hookRegistrations (addRegistration ev r m)) ev = Some (length (arrays m))"
    and "length (arrays (addRegistration ev r m)) = Suc (length (arrays m))"
    and "arrayAt (arrays (addRegistration ev r m)) (length (arrays m)) = [r]"
proof -
  have look: "map_of (hookRegistrations m @ [(ev, length (arrays m))]) ev = Some (length (arrays m))"
    using assms by (simp add: map_add_def)
  show "map_of (hookRegistrations (addRegistration ev r m)) ev = Some (length (arrays m))"
    and "length (arrays (addRegistration ev r m)) = Suc (length (arrays m))"
    and "arrayAt (arrays (addRegistration ev r m)) (length (arrays m)) = [r]"
    using assms look by (simp_all add: addRegistration_def arrayAt_def Let_def nth_append)
qed

lemma fold_addRegistration:
  assumes "map_of (hookRegistrations m) ev = Some a" "a < length (arrays m)"
      and "sorted (map priority (arrayAt (arrays m) a))"
  shows "map_of (hookRegistrations (fold (addRegistration ev) rs m)) ev = Some a
       \<and> a < length (arrays (fold (addRegistration ev) rs m))
       \<and> arrayAt (arrays (fold (addRegistration ev) rs m)) a
           = sort_key priority (arrayAt (arrays m) a @ rs)"
  using assms
proof (induction rs arbitrary: m)
  case Nil
  then show ?case by (simp add: sort_key_id_if_sorted)
next
  case (Cons r rs)
  let ?m1 = "addRegistration ev r m"
  have m1: "map_of (hookRegistrations ?m1) ev = Some a" "a < length (arrays ?m1)"
    using addRegistration_existing [OF Cons.prems(1,2), of r] Cons.prems(1,2) by simp_all
  have arr: "arrayAt (arrays ?m1) a = sort_key priority (arrayAt (arrays m) a @ [r])"
    using addRegistration_existing(3) [OF Cons.prems(1,2), of r] .
  have srt: "sorted (map priority (arrayAt (arrays ?m1) a))"
    by (simp add: arr)
  have "arrayAt (arrays (fold (addRegistration ev) rs ?m1)) a
          = sort_key priority (sort_key priority (arrayAt (arrays m) a @ [r]) @ rs)"
    using Cons.IH [OF m1 srt] by (simp add: arr)
  also have "\<dots> = sort_key priority (arrayAt (arrays m) a @ r # rs)"
    using sort_key_append_sorted [of priority "arrayAt (arrays m) a @ [r]" rs] by simp
  finally show ?case
    using Cons.IH [OF m1 srt] by simp
qed

lemma registrations_array:
  "map_of (hookRegistrations (fold (addRegistration ev) (r # rest) newHookManager)) ev = Some 0
   \<and> arrayAt (arrays (fold (addRegistration ev) (r # rest) newHookManager)) 0
       = sort_key priority (r # rest)"
proof -
  let ?m1 = "addRegistration ev r newHookManager"
  have none: "map_of (hookRegistrations newHookManager) ev = None"
    by (simp add: newHookManager_def)
  have len: "length (arrays newHookManager) = 0"
    by (simp add: newHookManager_def)
  have m1: "map_of (hookRegistrations ?m1) ev = Some 0" "0 < length (arrays ?m1)"
           "arrayAt (arrays ?m1) 0 = [r]"
    using addRegistration_fresh [OF none, of r] by (simp_all add: len)
  have srt: "sorted (map priority (arrayAt (arrays ?m1) 0))"
    by (simp add: m1)
  show ?thesis
    using fold_addRegistration [OF m1(1,2) srt, of rest] by (simp add: m1)
qed

lemma registrations_sorted_stable:
  assumes "rs \<noteq> []"
  shows "getHookInfo ev (fold (addRegistration ev) rs newHookManager)
           = map (\<lambda>r. (reg_id r, priority r)) (sort_key priority rs)
       \<and> sorted (map snd (getHookInfo ev (fold (addRegistration ev) rs newHookManager)))
       \<and> (\<forall>k. filter (\<lambda>r. priority r = k) (sort_key priority rs) = filter (\<lambda>r. priority r = k) rs)"
proof -
  obtain r rest where rs: "rs = r # rest"
    using assms by (cases rs) auto
  have info: "getHookInfo ev (fold (addRegistration ev) rs newHookManager)
           = map (\<lambda>r. (reg_id r, priority r)) (sort_key priority rs)"
    using registrations_array [of ev r rest] by (simp add: getHookInfo_def rs del: sort_key_simps)
  have comp: "(snd \<circ> (\<lambda>r. (reg_id r, priority r))) = priority"
    by (simp add: fun_eq_iff)
  have sorted: "sorted (map snd (getHookInfo ev (fold (addRegistration ev) rs newHookManager)))"
    unfolding info map_map comp by (rule sorted_sort_key)
  show ?thesis
    using info sorted by (simp add: sort_key_stable del: sort_key_simps)
qed

text \<open>
  With hooks that leave the arrays alone, the manager's dispatcher walks the array it
  fetched from front to back and ends.
\<close>

lemma monitoring_walks_array:
  assumes env: "quietHooks env"
      and pending: "list_all (\<lambda>(due, g). keepsArrays g) pending"
      and plain: "\<forall>a. map_of (hookRegistrations (w_manager w)) ev = Some a
                   \<longrightarrow> list_all (\<lambda>r. isUserHook (hook r)) (arrayAt (arrays (w_manager w)) a)"
      and fuel: "length (getHookInfo ev (w_manager w)) < fuel"
  shows "\<exists>s. executeHooksWithMonitoring fuel env ev d c startTime pending w = Some s
           \<and> map logged_id (ds_log s) = map fst (getHookInfo ev (w_manager w))
           \<and> arrays (w_manager (ds_world s)) = arrays (w_manager w)"
proof -
  let ?a = "case map_of (hookRegistrations (w_manager w)) ev of
              Some x \<Rightarrow> x | None \<Rightarrow> length (arrays (w_manager w))"
  let ?regs = "arrayAt (arrays (w_manager w)) ?a"
  let ?s0 = "initialDispatch d startTime pending w ?a"
  have info: "map fst (getHookInfo ev (w_manager w)) = map reg_id ?regs"
    by (auto simp: getHookInfo_def arrayAt_def comp_def split: option.splits)
  have len: "length ?regs < fuel"
    using fuel by (auto simp: getHookInfo_def arrayAt_def split: option.splits)
  have kinds: "list_all (\<lambda>r. isUserHook (hook r)) ?regs"
    using plain by (auto simp: arrayAt_def split: option.splits)
  have "\<exists>s'. hooksLoop fuel env ev c ?a 0 ?s0 = Some s'
            \<and> map logged_id (ds_log s') =
                map logged_id (ds_log ?s0)
                  @ map reg_id (drop 0 (arrayAt (arrays (w_manager (ds_world ?s0))) ?a))
            \<and> arrays (w_manager (ds_world s')) = arrays (w_manager (ds_world ?s0))"
    using pending kinds len
    by (intro hooksLoop_plain [OF env]) (simp_all add: initialDispatch_def)
  then obtain s' where "hooksLoop fuel env ev c ?a 0 ?s0 = Some s'"
      "map logged_id (ds_log s') = map reg_id ?regs"
      "arrays (w_manager (ds_world s')) = arrays (w_manager w)"
    by (auto simp: initialDispatch_def)
  then show ?thesis
    by (simp add: executeHooksWithMonitoring_def info Let_def)
qed

text \<open>
  So on the manager, after registrations \<open>rs\<close> of plain hooks that leave the arrays alone,
  a dispatch invokes the hooks in the order of the stable sort of \<open>rs\<close> by priority.
\<close>

lemma manager_dispatch_in_priority_order:
  assumes env: "quietHooks env"
      and plain: "\<forall>r \<in> set rs. isUserHook (hook r)"
      and "rs \<noteq> []"
  shows "\<exists>s. executeHooksWithMonitoring (Suc (length rs)) env ev d c startTime []
                \<lparr>w_manager = fold (addRegistration ev) rs newHookManager, w_objects = objs\<rparr> = Some s
           \<and> map logged_id (ds_log s) = map reg_id (sort_key priority rs)"
proof -
  obtain r rest where rs: "rs = r # rest"
    using assms(3) by (cases rs) auto
  let ?m = "fold (addRegistration ev) rs newHookManager"
  let ?w = "\<lparr>w_manager = ?m, w_objects = objs\<rparr>"
  have reg: "map_of (hookRegistrations ?m) ev = Some 0"
    and arr: "arrayAt (arrays ?m) 0 = sort_key priority rs"
    using registrations_array [of ev r rest] by (simp_all add: rs del: sort_key_simps)
  have info: "map fst (getHookInfo ev ?m) = map reg_id (sort_key priority rs)"
    by (simp add: getHookInfo_def reg arr comp_def del: sort_key_simps)
  have plain': "\<forall>a. map_of (hookRegistrations (w_manager ?w)) ev = Some a
                  \<longrightarrow> list_all (\<lambda>r. isUserHook (hook r)) (arrayAt (arrays (w_manager ?w)) a)"
    using plain by (simp add: reg arr list_all_iff del: sort_key_simps)
  have fuel: "length (getHookInfo ev (w_manager ?w)) < Suc (length rs)"
    by (simp add: getHookInfo_def reg arr del: sort_key_simps)
  have "\<exists>s. executeHooksWithMonitoring (Suc (length rs)) env ev d c startTime [] ?w = Some s
           \<and> map logged_id (ds_log s) = map fst (getHookInfo ev (w_manager ?w))
           \<and> arrays (w_manager (ds_world s)) = arrays (w_manager ?w)"
    using plain' fuel by (intro monitoring_walks_array [OF env]) simp_all
  then show ?thesis
    using info by auto
qed






text \<open>
  A hook registered with \<^verbatim>\<open>once\<close> on an emitter is registered twice and runs in two
  dispatches: in the first through the closure of \<^verbatim>\<open>once\<close>, which removes itself, in the
  second through the wrapper of the Node \<^verbatim>\<open>EventEmitter\<close>, whose registration stays.
\<close>

lemma emitter_once_runs_twice:
  "map (\<lambda>r. (e_hook r, e_id r, e_priority r)) (arrayAt (e_arrays onceEmitter) 1)
     = [(OnceWrapped 2 ''message:before'' 1, 2, 100), (NodeOnceWrapper 2 ''message:before'' 1, 3, 100)]
   \<and> (case executeHooks 5 emitterHooks ''message:before'' ''p'' () onceEmitter of
        None \<Rightarrow> None
      | Some (r, ex, e) \<Rightarrow>
          (case executeHooks 5 emitterHooks ''message:before'' ''p'' () e of
             None \<Rightarrow> None
           | Some (r', ex', e') \<Rightarrow>
               Some ((r, ex), (r', ex'),
                     map_option (\<lambda>x. (fst x, fst (snd x)))
                       (executeHooks 5 emitterHooks ''message:before'' ''p'' () e'))))
     = Some ((Inr ''pX'', [2]), (Inr ''pX'', [3]), Some (Inr ''p'', [3]))"
  by (simp add: emitter_defs emitter_once_def onceEmitter_def emitter_unregisterHook_def
        splice1_def eval_nat_numeral)

section \<open>Dispatch and changes of the registry in flight\<close>




section \<open>A hook that throws\<close>

text \<open>
  C4 at a failing input. The emitter holds a hook that throws, at priority 10, and a hook
  that appends \<open>X\<close>, at priority 20. \<^verbatim>\<open>executeHooks\<close> rejects with the \<^verbatim>\<open>ReferenceError\<close>
  raised in its own \<^verbatim>\<open>catch\<close> block, and the second hook is never invoked.
\<close>

theorem executeHooks_propagates_failure:
  "executeHooks 5 emitterHooks ''message:before'' [] () throwingEmitter
     = Some (Inl (NotDefined ''hookStartTime''), [], throwingEmitter)
   \<and> map e_hook (arrayAt (e_arrays throwingEmitter) 1) = [Callback 3, Callback 1]"
  by (simp add: emitter_defs eval_nat_numeral)

section \<open>Priority order\<close>

text \<open>
  C5 at a failing input. On an emitter, the hook appending \<open>X\<close> is registered with
  priority 0 and then the hook appending \<open>Y\<close> with priority 50. The first registration is
  stored with priority 100, and the dispatch of the empty payload invokes the second
  hook first: the result is \<open>YX\<close>.
\<close>

theorem emitter_priority_zero:
  "executeHooks 5 emitterHooks ''message:before'' [] () criticalEmitter
     = Some (Inr ''YX'', [3, 2], criticalEmitter)
   \<and> map (\<lambda>r. (e_hook r, e_id r, e_priority r)) (arrayAt (e_arrays criticalEmitter) 1)
       = [(Callback 2, 3, 50), (Callback 1, 2, 100)]"
  by (simp add: emitter_defs eval_nat_numeral)

section \<open>A hook that times out\<close>




end
